theory Spec2Isabelle
  imports Complex_Main "HOL-Library.Sublist"
begin

section \<open>ATS detection and application-flow optimisation: a shallow embedding\<close>

text \<open>
  The development follows \<^verbatim>\<open>src/ats/application_flow_optimizer.py\<close> and
  \<^verbatim>\<open>src/ats/csv_applicator.py\<close>. Python dictionaries with a fixed set of keys are
  records whose fields are optional where the key may be absent; Python's unbounded
  integers are \<^typ>\<open>int\<close>. The source computes confidences and running averages in
  binary floating point; the embedding uses exact rationals. For the detector this
  changes no branch: the only sums of the weights 0.3 and 0.2 that are compared with
  the cut-off 0.6 and are equal to it as rationals are 0.3 + 0.3 and 0.2 + 0.2 + 0.2,
  and both are at least 0.6 in double precision as well.
\<close>

subsection \<open>Python values\<close>

text \<open>
  The values that a job or a profile dictionary holds, as far as the code looks at them:
  \<^verbatim>\<open>None\<close>, booleans, integers and strings. Any other object (a float, a list, a
  dictionary) is given by its truth value and by the text that \<^verbatim>\<open>str\<close> returns for it,
  so that the empty list is \<open>PObj False ''[]''\<close>. \<open>truthy\<close> is the test of
  \<^verbatim>\<open>if value:\<close>, and \<open>py_str\<close> is \<^verbatim>\<open>str(value)\<close>, which is also what an f-string
  puts for \<^verbatim>\<open>{value}\<close>.
\<close>

datatype pyval = PNone | PBool bool | PInt int | PStr string | PObj bool string

fun truthy :: "pyval \<Rightarrow> bool" where
  "truthy PNone = False"
| "truthy (PBool b) = b"
| "truthy (PInt i) = (i \<noteq> 0)"
| "truthy (PStr s) = (s \<noteq> '''')"
| "truthy (PObj b s) = b"

fun decimal :: "nat \<Rightarrow> string" where
  "decimal n = (if n < 10 then [''0123456789'' ! n]
                else decimal (n div 10) @ [''0123456789'' ! (n mod 10)])"

declare decimal.simps [simp del]

fun py_str :: "pyval \<Rightarrow> string" where
  "py_str PNone = ''None''"
| "py_str (PBool b) = (if b then ''True'' else ''False'')"
| "py_str (PInt i) = (if i < 0 then ''-'' @ decimal (nat (- i)) else decimal (nat i))"
| "py_str (PStr s) = s"
| "py_str (PObj b s) = s"

subsection \<open>Application results and metrics\<close>

text \<open>
  The result dictionary built by the strategies and completed by the dispatcher. A field
  is \<open>None\<close> when the key is absent from the dictionary.
\<close>

record app_result =
  status :: "string option"
  strategy :: "string option"
  fields_filled :: "(string \<times> pyval) list option"
  confidence :: "rat option"
  error :: "string option"
  application_duration :: "rat option"
  ats_system :: "string option"
  ats_confidence :: "rat option"

text \<open>The dataclass \<^verbatim>\<open>ApplicationMetrics\<close> and its default instance.\<close>

record ApplicationMetrics =
  total_attempts :: int
  successful_applications :: int
  failed_applications :: int
  manual_reviews_required :: int
  average_application_time :: rat
  ats_detection_accuracy :: rat
  form_prefill_success_rate :: rat

definition initial_metrics :: ApplicationMetrics where
  "initial_metrics =
     \<lparr>total_attempts = 0, successful_applications = 0, failed_applications = 0,
      manual_reviews_required = 0, average_application_time = 0,
      ats_detection_accuracy = 0, form_prefill_success_rate = 0\<rparr>"

text \<open>
  \<^verbatim>\<open>len(self.form_field_mappings['generic'])\<close>: the generic mapping has the six
  fields first_name, last_name, email, phone, resume and cover_letter.
\<close>

definition generic_mapping_size :: int where
  "generic_mapping_size = 6"

text \<open>
  \<^verbatim>\<open>_update_application_metrics\<close>. The status is read with the default
  \<^verbatim>\<open>'unknown'\<close>; the \<^verbatim>\<open>if/elif/elif\<close> chain has no \<^verbatim>\<open>else\<close>.
\<close>

definition count_status :: "string \<Rightarrow> ApplicationMetrics \<Rightarrow> ApplicationMetrics" where
  "count_status st m =
     (if st = ''applied'' then m\<lparr>successful_applications := successful_applications m + 1\<rparr>
      else if st = ''failed'' then m\<lparr>failed_applications := failed_applications m + 1\<rparr>
      else if st = ''manual_review'' then m\<lparr>manual_reviews_required := manual_reviews_required m + 1\<rparr>
      else m)"

definition running_mean :: "rat \<Rightarrow> int \<Rightarrow> rat \<Rightarrow> rat" where
  "running_mean old_avg n new_value = (old_avg * of_int (n - 1) + new_value) / of_int n"

definition update_application_metrics :: "app_result \<Rightarrow> ApplicationMetrics \<Rightarrow> ApplicationMetrics" where
  "update_application_metrics r m =
     (let m1 = m\<lparr>total_attempts := total_attempts m + 1\<rparr>;
          st = (case status r of None \<Rightarrow> ''unknown'' | Some s \<Rightarrow> s);
          m2 = count_status st m1;
          duration = (case application_duration r of None \<Rightarrow> 0 | Some d \<Rightarrow> d);
          m3 = (if duration > 0
                then m2\<lparr>average_application_time :=
                          running_mean (average_application_time m2) (total_attempts m2) duration\<rparr>
                else m2);
          conf = (case ats_confidence r of None \<Rightarrow> 0 | Some c \<Rightarrow> c);
          m4 = (if conf > 0
                then m3\<lparr>ats_detection_accuracy :=
                          running_mean (ats_detection_accuracy m3) (total_attempts m3) conf\<rparr>
                else m3);
          ff = (case fields_filled r of None \<Rightarrow> [] | Some fs \<Rightarrow> fs)
      in if ff \<noteq> []
         then m4\<lparr>form_prefill_success_rate :=
                   running_mean (form_prefill_success_rate m4) (total_attempts m4)
                     (of_int (int (length ff)) / of_int (max generic_mapping_size 1))\<rparr>
         else m4)"

text \<open>Recording a sequence of results, one call of the updater per result.\<close>

definition record_all :: "ApplicationMetrics \<Rightarrow> app_result list \<Rightarrow> ApplicationMetrics" where
  "record_all m rs = foldl (\<lambda>acc r. update_application_metrics r acc) m rs"

definition outcome_sum :: "ApplicationMetrics \<Rightarrow> int" where
  "outcome_sum m = successful_applications m + failed_applications m + manual_reviews_required m"

definition bucketed :: "app_result \<Rightarrow> bool" where
  "bucketed r = (status r = Some ''applied'' \<or> status r = Some ''failed''
                 \<or> status r = Some ''manual_review'')"

definition timeout_result :: app_result where
  "timeout_result =
     \<lparr>status = Some ''timeout'', strategy = None, fields_filled = None, confidence = None,
      error = None, application_duration = None, ats_system = None, ats_confidence = None\<rparr>"

definition applied_result :: app_result where
  "applied_result = timeout_result\<lparr>status := Some ''applied''\<rparr>"

subsection \<open>Strings\<close>

text \<open>
  Strings are lists of characters; the embedding covers ASCII text. \<open>lower\<close> is
  \<^verbatim>\<open>str.lower\<close>, \<open>is_in sub s\<close> is Python's \<^verbatim>\<open>sub in s\<close> and \<open>strip\<close> is
  \<^verbatim>\<open>str.strip\<close> with no argument.
\<close>

definition lower_char :: "char \<Rightarrow> char" where
  "lower_char c =
     (case map_of (zip ''ABCDEFGHIJKLMNOPQRSTUVWXYZ'' ''abcdefghijklmnopqrstuvwxyz'') c of
        None \<Rightarrow> c | Some l \<Rightarrow> l)"

definition lower :: "string \<Rightarrow> string" where
  "lower s = map lower_char s"

fun is_in :: "string \<Rightarrow> string \<Rightarrow> bool" where
  "is_in sub [] = (sub = [])"
| "is_in sub (c # cs) = (prefix sub (c # cs) \<or> is_in sub cs)"

definition is_space :: "char \<Rightarrow> bool" where
  "is_space c = (c \<in> set [CHR '' '', CHR 0x09, CHR 0x0A, CHR 0x0B, CHR 0x0C, CHR 0x0D,
                          CHR 0x1C, CHR 0x1D, CHR 0x1E, CHR 0x1F])"

definition strip :: "string \<Rightarrow> string" where
  "strip s = rev (dropWhile is_space (rev (dropWhile is_space s)))"

subsection \<open>Console\<close>

text \<open>
  \<^verbatim>\<open>console.print(text)\<close> of the library rich, which is not part of the repository,
  reads the text as console markup and raises \<^verbatim>\<open>MarkupError\<close> when a closing tag has
  no open tag to close. The definitions follow \<^verbatim>\<open>rich/markup.py\<close>. A tag is
  \<^verbatim>\<open>[\<close>, a character of \<^verbatim>\<open>a-z#/@\<close>, and the characters up to the next \<^verbatim>\<open>]\<close>
  with no \<^verbatim>\<open>[\<close> before it; a tag after an odd number of backslashes is escaped and
  printed as it is. An opening tag is pushed on the stack of open styles; a closing tag
  \<^verbatim>\<open>[/name]\<close> removes the innermost open tag of that name, and \<^verbatim>\<open>[/]\<close> removes the
  innermost open tag. A tag that is left open is not an error.

  \<open>console_print text\<close> is \<open>None\<close> when the text is printed and \<open>Some e\<close> when the call
  raises \<open>e\<close>. The following is simplified. The emoji in the texts of the source are
  written \<^verbatim>\<open>?\<close>, one character for each code point, which keeps the positions that the
  error messages report. Style names are compared after \<^verbatim>\<open>strip\<close> and \<^verbatim>\<open>lower\<close>;
  rich first rewrites a name that is a style definition to a normal form, and so also
  takes \<^verbatim>\<open>[/bold]\<close> to close \<^verbatim>\<open>[b]\<close>. The parameters of a closed meta tag (a tag
  named \<^verbatim>\<open>@...\<close>), which rich evaluates as a Python literal, are not evaluated: closing
  such a tag is reported as an error when it has parameters. The console is taken to be
  able to write every character.
\<close>

text \<open>An exception is represented by a text, its class and its message.\<close>

type_synonym exn = string

text \<open>A tag in the stack of open styles: its name and its parameters, if any.\<close>

type_synonym tag = "string \<times> string option"

definition tag_start :: "char \<Rightarrow> bool" where
  "tag_start c = (c \<in> set ''abcdefghijklmnopqrstuvwxyz#/@'')"

text \<open>The rest of a tag and the text after its closing bracket.\<close>

fun tag_rest :: "string \<Rightarrow> (string \<times> string) option" where
  "tag_rest [] = None"
| "tag_rest (c # cs) =
     (if c = CHR '']'' then Some ([], cs)
      else if c = CHR ''['' then None
      else (case tag_rest cs of None \<Rightarrow> None | Some (t, r) \<Rightarrow> Some (c # t, r)))"

text \<open>The match of \<^verbatim>\<open>RE_TAGS\<close> on the text after an opening bracket.\<close>

definition match_tag :: "string \<Rightarrow> (string \<times> string) option" where
  "match_tag cs =
     (case cs of
        [] \<Rightarrow> None
      | c # cs' \<Rightarrow>
          (if tag_start c
           then (case tag_rest cs' of None \<Rightarrow> None | Some (t, r) \<Rightarrow> Some (c # t, r))
           else None))"

text \<open>\<^verbatim>\<open>tag_text.partition("=")\<close>\<close>

definition parse_tag :: "string \<Rightarrow> tag" where
  "parse_tag tag_text =
     (takeWhile (\<lambda>c. c \<noteq> CHR ''='') tag_text,
      if CHR ''='' \<in> set tag_text
      then Some (tl (dropWhile (\<lambda>c. c \<noteq> CHR ''='') tag_text)) else None)"

definition normalize :: "string \<Rightarrow> string" where
  "normalize style = lower (strip style)"

text \<open>\<^verbatim>\<open>pop_style\<close>: the innermost open tag of the name is taken off the stack.\<close>

fun pop_style :: "string \<Rightarrow> tag list \<Rightarrow> (tag \<times> tag list) option" where
  "pop_style style_name [] = None"
| "pop_style style_name (t # ts) =
     (if fst t = style_name then Some (t, ts)
      else (case pop_style style_name ts of
              None \<Rightarrow> None
            | Some (x, r) \<Rightarrow> Some (x, t # r)))"

definition meta_error :: "tag \<Rightarrow> exn option" where
  "meta_error open_tag =
     (case open_tag of
        (name, None) \<Rightarrow> None
      | (name, Some parameters) \<Rightarrow>
          (if take 1 name = ''@'' \<and> parameters \<noteq> ''''
           then Some (''MarkupError: error parsing '' @ parameters) else None))"

definition close_tag :: "string \<Rightarrow> nat \<Rightarrow> string \<Rightarrow> tag list \<Rightarrow> exn + tag list" where
  "close_tag tag_text position name style_stack =
     (let style_name = strip (tl name)
      in if style_name \<noteq> ''''
         then (case pop_style (normalize style_name) style_stack of
                 None \<Rightarrow>
                   Inl (''MarkupError: closing tag '' @ [CHR 0x27] @ ''['' @ tag_text @ '']''
                        @ [CHR 0x27] @ '' at position '' @ decimal position
                        @ '' doesn't match any open tag'')
               | Some (open_tag, rest) \<Rightarrow>
                   (case meta_error open_tag of Some e \<Rightarrow> Inl e | None \<Rightarrow> Inr rest))
         else (case style_stack of
                 [] \<Rightarrow>
                   Inl (''MarkupError: closing tag '' @ [CHR 0x27] @ ''[/]'' @ [CHR 0x27]
                        @ '' at position '' @ decimal position @ '' has nothing to close'')
               | open_tag # rest \<Rightarrow>
                   (case meta_error open_tag of Some e \<Rightarrow> Inl e | None \<Rightarrow> Inr rest)))"

text \<open>
  \<^verbatim>\<open>render\<close>, reading the text from the left: \<open>position\<close> is the index of the next
  character and \<open>escapes\<close> the number of backslashes just before it.
\<close>

function render :: "string \<Rightarrow> nat \<Rightarrow> nat \<Rightarrow> tag list \<Rightarrow> exn option" where
  "render [] position escapes style_stack = None"
| "render (c # cs) position escapes style_stack =
     (if c = CHR 0x5C then render cs (position + 1) (escapes + 1) style_stack
      else if c = CHR ''[''
      then (case match_tag cs of
              None \<Rightarrow> render cs (position + 1) 0 style_stack
            | Some (tag_text, rest) \<Rightarrow>
                (let next_position = position + length tag_text + 2
                 in if odd escapes then render rest next_position 0 style_stack
                    else (case parse_tag tag_text of
                            (name, parameters) \<Rightarrow>
                              (if take 1 name = ''/''
                               then (case close_tag tag_text position name style_stack of
                                       Inl e \<Rightarrow> Some e
                                     | Inr style_stack' \<Rightarrow> render rest next_position 0 style_stack')
                               else render rest next_position 0
                                      ((normalize name, parameters) # style_stack)))))
      else render cs (position + 1) 0 style_stack)"
  by pat_completeness auto

termination
proof -
  have r: "length r < Suc (length cs)" if "tag_rest cs = Some (t, r)" for cs t r
    using that
    by (induction cs arbitrary: t r) (auto split: if_splits option.splits)
  have m: "length r < Suc (length cs)" if "match_tag cs = Some (t, r)" for cs t r
    using that r
    by (fastforce simp add: match_tag_def split: list.splits if_splits option.splits)
  show ?thesis
    by (relation "measure (\<lambda>(text, position, escapes, style_stack). length text)")
      (auto dest: m)
qed

declare render.simps [simp del]

definition console_print :: "string \<Rightarrow> exn option" where
  "console_print markup = render markup 0 0 []"

subsection \<open>The page capability\<close>

text \<open>
  Every call into the browser may raise:
  a call returns \<open>Inl msg\<close> when it raises and \<open>Inr v\<close> when it returns \<open>v\<close>.
  Elements live in a store indexed by identifiers, so that two selectors may resolve to
  the same element. An element carries its current value; reading it
  (\<^verbatim>\<open>input_value()\<close>) and writing it (\<^verbatim>\<open>fill(value)\<close>) may each raise, and a
  \<^verbatim>\<open>fill\<close> that raises leaves the value as it was. Clicks are logged in \<open>clicked\<close>.
\<close>

record element =
  elem_value :: string
  input_value_raises :: bool
  fill_raises :: bool
  is_visible :: "exn + bool"
  click_raises :: bool

record page =
  content :: "exn + string"
  query_selector_all :: "string \<Rightarrow> exn + nat list"
  query_selector :: "string \<Rightarrow> exn + nat option"
  elements :: "nat \<Rightarrow> element"
  wait_raises :: bool
  clicked :: "nat list"

definition input_value :: "element \<Rightarrow> exn + string" where
  "input_value el = (if input_value_raises el then Inl ''input_value failed'' else Inr (elem_value el))"

text \<open>
  Modelled from the spec: \<^verbatim>\<open>safe_execute\<close> is imported from
  \<^verbatim>\<open>src.utils.enhanced_error_tolerance\<close>, which is not among the sources. The spec has
  every call into the page treated as fallible and wrapped at its call site; the two call
  sites pass \<^verbatim>\<open>default_return=""\<close>. It returns the value of the call, and the default
  when the call raises.
\<close>

definition safe_execute :: "exn + 'a \<Rightarrow> 'a \<Rightarrow> 'a" where
  "safe_execute call default_return = (case call of Inl e \<Rightarrow> default_return | Inr v \<Rightarrow> v)"

subsection \<open>Pattern catalog\<close>

record ats_pattern =
  url_patterns :: "string list"
  dom_selectors :: "string list"
  text_indicators :: "string list"
  form_patterns :: "string list"

text \<open>\<^verbatim>\<open>_load_ats_patterns\<close>: a dictionary, iterated in insertion order.\<close>

definition ats_patterns :: "(string \<times> ats_pattern) list" where
  \<open>ats_patterns =
     [(''workday'',
        \<lparr>url_patterns = [''workday.com'', ''myworkday.com'', ''wd1.myworkdayjobs.com''],
         dom_selectors = [''[data-automation-id]'', ''.css-1hwfws3'', ''.workday''],
         text_indicators = [''workday'', ''powered by workday''],
         form_patterns = [''input[data-automation-id]'']\<rparr>),
      (''greenhouse'',
        \<lparr>url_patterns = [''greenhouse.io'', ''boards.greenhouse.io''],
         dom_selectors = [''.application-form'', ''.greenhouse-form''],
         text_indicators = [''greenhouse'', ''powered by greenhouse''],
         form_patterns = [''input[name*="application"]'']\<rparr>),
      (''lever'',
        \<lparr>url_patterns = [''lever.co'', ''jobs.lever.co''],
         dom_selectors = [''.application-form'', ''.lever-form''],
         text_indicators = [''lever'', ''powered by lever''],
         form_patterns = [''input[name*="lever"]'']\<rparr>),
      (''bamboohr'',
        \<lparr>url_patterns = [''bamboohr.com'', ''bamboohr.co''],
         dom_selectors = [''.bamboo-form'', ''.application-container''],
         text_indicators = [''bamboohr'', ''bamboo hr''],
         form_patterns = [''input[name*="bamboo"]'']\<rparr>)]\<close>

subsection \<open>ATS detector\<close>

text \<open>
  \<^verbatim>\<open>detect_ats_system\<close>. The URL is \<open>None\<close> when the caller passes an object that is
  not a string (Python's \<^verbatim>\<open>None\<close>): \<^verbatim>\<open>job_url.lower()\<close> then raises inside the
  outer \<^verbatim>\<open>try\<close>. The decorator \<^verbatim>\<open>with_retry\<close> is not among the sources; a call
  that returns normally is taken to pass through it unchanged. The detector's calls of
  \<^verbatim>\<open>console.print\<close> are left out: their texts are fixed but for the vendor name, the
  confidence and the message of that \<^verbatim>\<open>AttributeError\<close>, and none of them has a
  closing tag without its opening tag.
\<close>

text \<open>The URL loop: the first vendor, in table order, one of whose patterns is in the URL.\<close>

fun url_detect :: "(string \<times> ats_pattern) list \<Rightarrow> string \<Rightarrow> string option" where
  "url_detect [] u = None"
| "url_detect ((ats_name, patterns) # rest) u =
     (if list_ex (\<lambda>url_pattern. is_in url_pattern u) (url_patterns patterns)
      then Some ats_name else url_detect rest u)"

text \<open>
  A probe with \<^verbatim>\<open>query_selector_all\<close>: a raising probe is skipped by the bare
  \<^verbatim>\<open>except: continue\<close>; otherwise the list of elements is tested for being non-empty.
\<close>

definition probe_hit :: "page \<Rightarrow> string \<Rightarrow> bool" where
  "probe_hit p selector =
     (case query_selector_all p selector of Inl e \<Rightarrow> False | Inr els \<Rightarrow> els \<noteq> [])"

text \<open>The three accumulation loops for one vendor, starting from 0.0.\<close>

definition vendor_confidence :: "page \<Rightarrow> string \<Rightarrow> ats_pattern \<Rightarrow> rat" where
  "vendor_confidence p page_content patterns =
     (let c1 = foldl (\<lambda>c selector. if probe_hit p selector then c + 3 / 10 else c)
                 0 (dom_selectors patterns);
          c2 = foldl (\<lambda>c indicator. if is_in (lower indicator) (lower page_content)
                                     then c + 2 / 10 else c)
                 c1 (text_indicators patterns);
          c3 = foldl (\<lambda>c form_pattern. if probe_hit p form_pattern then c + 2 / 10 else c)
                 c2 (form_patterns patterns)
      in c3)"

fun dom_detect :: "page \<Rightarrow> string \<Rightarrow> (string \<times> ats_pattern) list \<Rightarrow> string \<times> rat" where
  "dom_detect p page_content [] = (''generic'', 3 / 10)"
| "dom_detect p page_content ((ats_name, patterns) # rest) =
     (let c = vendor_confidence p page_content patterns
      in if c \<ge> 6 / 10 then (ats_name, c) else dom_detect p page_content rest)"

text \<open>The body of the outer \<^verbatim>\<open>try\<close>: \<open>Inl\<close> when an exception reaches the handler.\<close>

definition detect_body :: "page \<Rightarrow> string option \<Rightarrow> exn + string \<times> rat" where
  "detect_body p job_url =
     (case job_url of
        None \<Rightarrow> Inl ''AttributeError: object has no attribute lower''
      | Some u \<Rightarrow>
          (case url_detect ats_patterns (lower u) of
             Some ats_name \<Rightarrow> Inr (ats_name, 9 / 10)
           | None \<Rightarrow>
               (let page_content = safe_execute (content p) ''''
                in Inr (dom_detect p page_content ats_patterns))))"

definition detect_ats_system :: "page \<Rightarrow> string option \<Rightarrow> exn + string \<times> rat" where
  "detect_ats_system p job_url =
     (case detect_body p job_url of
        Inl e \<Rightarrow> Inr (''generic'', 1 / 10)
      | Inr r \<Rightarrow> Inr r)"

text \<open>The scoring rule in the words of the spec, for comparison with the loops above.\<close>

definition spec_score :: "page \<Rightarrow> string \<Rightarrow> ats_pattern \<Rightarrow> rat" where
  "spec_score p page_content patterns =
     3 / 10 * of_nat (length (filter (probe_hit p) (dom_selectors patterns)))
     + 2 / 10 * of_nat (length (filter (\<lambda>t. is_in (lower t) (lower page_content))
                                  (text_indicators patterns)))
     + 2 / 10 * of_nat (length (filter (probe_hit p) (form_patterns patterns)))"

text \<open>Pages used as concrete inputs.\<close>

definition blank_element :: element where
  "blank_element =
     \<lparr>elem_value = '''', input_value_raises = False, fill_raises = False,
      is_visible = Inr True, click_raises = False\<rparr>"

text \<open>No DOM access at all: every call into the page raises.\<close>

definition no_dom_page :: page where
  "no_dom_page =
     \<lparr>content = Inl ''page unavailable'',
      query_selector_all = (\<lambda>s. Inl ''page unavailable''),
      query_selector = (\<lambda>s. Inl ''page unavailable''),
      elements = (\<lambda>i. blank_element),
      wait_raises = True, clicked = []\<rparr>"

text \<open>A page on which every probe matches one element and the text names Workday.\<close>

definition all_match_page :: page where
  "all_match_page =
     \<lparr>content = Inr ''Powered by Workday'',
      query_selector_all = (\<lambda>s. Inr [0]),
      query_selector = (\<lambda>s. Inr (Some 0)),
      elements = (\<lambda>i. blank_element),
      wait_raises = False, clicked = []\<rparr>"

text \<open>
  A page with elements for \<^verbatim>\<open>.application-form\<close>, \<^verbatim>\<open>.greenhouse-form\<close> and
  \<^verbatim>\<open>.lever-form\<close> whose text says it is powered by Lever.
\<close>

definition lever_like_page :: page where
  "lever_like_page =
     \<lparr>content = Inr ''Jobs at Acme - Powered by Lever'',
      query_selector_all =
        (\<lambda>s. if s \<in> set [''.application-form'', ''.greenhouse-form'', ''.lever-form'']
              then Inr [0] else Inr []),
      query_selector = (\<lambda>s. Inr None),
      elements = (\<lambda>i. blank_element),
      wait_raises = False, clicked = []\<rparr>"

text \<open>The largest score a vendor can accumulate: every probe and indicator counted.\<close>

definition max_score :: "ats_pattern \<Rightarrow> rat" where
  "max_score pat = 3 / 10 * of_nat (length (dom_selectors pat))
     + 2 / 10 * of_nat (length (text_indicators pat))
     + 2 / 10 * of_nat (length (form_patterns pat))"

subsection \<open>Field mappings\<close>

text \<open>
  \<^verbatim>\<open>_load_form_mappings\<close>: per vendor, a dictionary from logical field name to its
  candidate selectors, in insertion order. There is no entry for lever or bamboohr.
\<close>

type_synonym field_mapping = "(string \<times> string list) list"

definition workday_mapping :: field_mapping where
  \<open>workday_mapping =
     [(''first_name'', [''input[data-automation-id*="firstName"]'', ''input[name*="firstName"]'']),
      (''last_name'', [''input[data-automation-id*="lastName"]'', ''input[name*="lastName"]'']),
      (''email'', [''input[data-automation-id*="email"]'', ''input[type="email"]'']),
      (''phone'', [''input[data-automation-id*="phone"]'', ''input[type="tel"]'']),
      (''resume'', [''input[data-automation-id*="resume"]'', ''input[type="file"]'']),
      (''cover_letter'', [''input[data-automation-id*="coverLetter"]''])]\<close>

definition greenhouse_mapping :: field_mapping where
  \<open>greenhouse_mapping =
     [(''first_name'', [''input[name*="first_name"]'', ''#first_name'']),
      (''last_name'', [''input[name*="last_name"]'', ''#last_name'']),
      (''email'', [''input[name*="email"]'', ''#email'']),
      (''phone'', [''input[name*="phone"]'', ''#phone'']),
      (''resume'', [''input[name*="resume"]'', ''input[type="file"]'']),
      (''cover_letter'', [''input[name*="cover_letter"]''])]\<close>

definition generic_mapping :: field_mapping where
  \<open>generic_mapping =
     [(''first_name'', [''input[name*="first"]'', ''#firstName'', ''#first_name'']),
      (''last_name'', [''input[name*="last"]'', ''#lastName'', ''#last_name'']),
      (''email'', [''input[type="email"]'', ''#email'', ''input[name*="email"]'']),
      (''phone'', [''input[type="tel"]'', ''#phone'', ''input[name*="phone"]'']),
      (''resume'', [''input[type="file"]'', ''input[name*="resume"]'']),
      (''cover_letter'', [''input[name*="cover"]'', ''input[name*="letter"]''])]\<close>

definition form_field_mappings :: "(string \<times> field_mapping) list" where
  "form_field_mappings =
     [(''workday'', workday_mapping), (''greenhouse'', greenhouse_mapping),
      (''generic'', generic_mapping)]"

text \<open>\<^verbatim>\<open>d[key]\<close> raises KeyError on a missing key; \<^verbatim>\<open>d.get(key, default)\<close> does not.\<close>

definition mapping_item :: "string \<Rightarrow> exn + field_mapping" where
  "mapping_item key =
     (case map_of form_field_mappings key of None \<Rightarrow> Inl (''KeyError: '' @ key) | Some m \<Rightarrow> Inr m)"

definition py_get :: "('k \<rightharpoonup> 'v) \<Rightarrow> 'k \<Rightarrow> 'v \<Rightarrow> 'v" where
  "py_get d key default_value = (case d key of None \<Rightarrow> default_value | Some v \<Rightarrow> v)"

text \<open>\<^verbatim>\<open>d[key] = value\<close> on a dictionary kept in insertion order.\<close>

fun dict_set :: "'k \<Rightarrow> 'v \<Rightarrow> ('k \<times> 'v) list \<Rightarrow> ('k \<times> 'v) list" where
  "dict_set k v [] = [(k, v)]"
| "dict_set k v ((k', v') # rest) =
     (if k = k' then (k, v) # rest else (k', v') # dict_set k v rest)"

subsection \<open>Field filler\<close>

text \<open>
  \<^verbatim>\<open>element.fill(value)\<close>. Playwright takes a string here: for a value of another
  type the driver refuses the call with an error (\<^verbatim>\<open>expected string\<close>), whatever the
  element. For a string the element decides; a successful \<^verbatim>\<open>fill\<close> sets its value.
\<close>

definition fill_element :: "page \<Rightarrow> nat \<Rightarrow> string \<Rightarrow> page" where
  "fill_element p i v = p\<lparr>elements := (elements p)(i := (elements p i)\<lparr>elem_value := v\<rparr>)\<rparr>"

fun fill :: "page \<Rightarrow> nat \<Rightarrow> pyval \<Rightarrow> exn + page" where
  "fill p i (PStr s) =
     (if fill_raises (elements p i) then Inl ''Error: fill failed'' else Inr (fill_element p i s))"
| "fill p i v = Inl ''Error: value: expected string''"

text \<open>
  \<^verbatim>\<open>_try_fill_field\<close>: every exception inside the loop body is caught and the loop
  goes on with the next selector. The current value is read through
  \<open>safe_execute\<close> with default \<^verbatim>\<open>""\<close>.
\<close>

fun try_fill_field :: "page \<Rightarrow> string list \<Rightarrow> pyval \<Rightarrow> bool \<times> page" where
  "try_fill_field p [] v = (False, p)"
| "try_fill_field p (selector # rest) v =
     (case query_selector p selector of
        Inl e \<Rightarrow> try_fill_field p rest v
      | Inr None \<Rightarrow> try_fill_field p rest v
      | Inr (Some i) \<Rightarrow>
          (let current_value = safe_execute (input_value (elements p i)) ''''
           in if current_value = ''''
              then (case fill p i v of
                      Inl e \<Rightarrow> try_fill_field p rest v
                    | Inr p' \<Rightarrow> (True, p'))
              else try_fill_field p rest v))"

text \<open>
  \<^verbatim>\<open>_fill_form_fields\<close>. A profile is a dictionary; the argument is \<open>None\<close> when the
  caller passes Python's \<^verbatim>\<open>None\<close> (no profile loaded), on which \<^verbatim>\<open>profile.get\<close>
  raises. The function prints a line for every field that it tried; a print that raises
  ends the function with the page as it is then, so the result is a pair of the fields
  filled, or the exception, and the page.
\<close>

type_synonym profile = "string \<rightharpoonup> pyval"

definition profile_data :: "profile \<Rightarrow> (string \<times> pyval) list" where
  "profile_data profile =
     [(''first_name'', py_get profile ''first_name'' (PStr '''')),
      (''last_name'', py_get profile ''last_name'' (PStr '''')),
      (''email'', py_get profile ''email'' (PStr ''Nirajan.tech@gmail.com'')),
      (''phone'', py_get profile ''phone'' (PStr ''''))]"

definition filled_text :: "string \<Rightarrow> pyval \<Rightarrow> string" where
  "filled_text field_name v = ''[green]? Filled '' @ field_name @ '': '' @ py_str v @ ''[/green]''"

definition could_not_fill_text :: "string \<Rightarrow> string" where
  "could_not_fill_text field_name = ''[yellow]?? Could not fill '' @ field_name @ ''[/yellow]''"

fun fill_loop ::
  "page \<Rightarrow> (string \<times> pyval) list \<Rightarrow> field_mapping \<Rightarrow> (string \<times> pyval) list
     \<Rightarrow> (exn + (string \<times> pyval) list) \<times> page" where
  "fill_loop p pd [] filled_fields = (Inr filled_fields, p)"
| "fill_loop p pd ((field_name, selectors) # rest) filled_fields =
     (case map_of pd field_name of
        None \<Rightarrow> fill_loop p pd rest filled_fields
      | Some v \<Rightarrow>
          (if truthy v
           then (case try_fill_field p selectors v of
                   (True, p') \<Rightarrow>
                     (case console_print (filled_text field_name v) of
                        Some e \<Rightarrow> (Inl e, p')
                      | None \<Rightarrow> fill_loop p' pd rest (dict_set field_name v filled_fields))
                 | (False, p') \<Rightarrow>
                     (case console_print (could_not_fill_text field_name) of
                        Some e \<Rightarrow> (Inl e, p')
                      | None \<Rightarrow> fill_loop p' pd rest filled_fields))
           else fill_loop p pd rest filled_fields))"

definition fill_form_fields ::
  "page \<Rightarrow> profile option \<Rightarrow> field_mapping \<Rightarrow> (exn + (string \<times> pyval) list) \<times> page" where
  "fill_form_fields p profile mappings =
     (case profile of
        None \<Rightarrow> (Inl ''AttributeError: NoneType object has no attribute get'', p)
      | Some pr \<Rightarrow> fill_loop p (profile_data pr) mappings [])"

text \<open>
  The target of \<^verbatim>\<open>_try_fill_field\<close> in words: a selector is usable when it resolves to
  an existing element whose value reads as empty (a value that cannot be read counts as
  empty) and whose \<^verbatim>\<open>fill\<close> does not raise; the first usable selector decides.
\<close>

definition fillable :: "page \<Rightarrow> string \<Rightarrow> nat option" where
  "fillable p selector =
     (case query_selector p selector of
        Inl e \<Rightarrow> None
      | Inr None \<Rightarrow> None
      | Inr (Some i) \<Rightarrow>
          (if (input_value_raises (elements p i) \<or> elem_value (elements p i) = '''')
              \<and> \<not> fill_raises (elements p i)
           then Some i else None))"

definition first_fillable :: "page \<Rightarrow> string list \<Rightarrow> nat option" where
  "first_fillable p selectors =
     (case find (\<lambda>s. fillable p s \<noteq> None) selectors of
        None \<Rightarrow> None
      | Some s \<Rightarrow> fillable p s)"

subsection \<open>Strategies\<close>

definition next_buttons :: "string list" where
  \<open>next_buttons =
     [''button[data-automation-id*="next"]'', ''button[data-automation-id*="continue"]'',
      ''button:has-text("Next")'', ''button:has-text("Continue")'']\<close>

text \<open>
  \<^verbatim>\<open>_handle_workday_specifics\<close>: the first visible button is clicked and the page
  waits; any exception in the loop body, also one of the print, goes on with the next
  selector, so the function never raises.
\<close>

fun click_next :: "page \<Rightarrow> string list \<Rightarrow> page" where
  "click_next p [] = p"
| "click_next p (selector # rest) =
     (case query_selector p selector of
        Inl e \<Rightarrow> click_next p rest
      | Inr None \<Rightarrow> click_next p rest
      | Inr (Some i) \<Rightarrow>
          (case is_visible (elements p i) of
             Inl e \<Rightarrow> click_next p rest
           | Inr False \<Rightarrow> click_next p rest
           | Inr True \<Rightarrow>
               (case console_print ''[cyan]? Clicking Workday next button[/cyan]'' of
                  Some e \<Rightarrow> click_next p rest
                | None \<Rightarrow>
                    (if click_raises (elements p i) then click_next p rest
                     else (let p' = p\<lparr>clicked := clicked p @ [i]\<rparr>
                           in if wait_raises p' then click_next p' rest else p')))))"

definition handle_workday_specifics :: "page \<Rightarrow> page" where
  "handle_workday_specifics p = click_next p next_buttons"

definition empty_result :: app_result where
  "empty_result =
     \<lparr>status = None, strategy = None, fields_filled = None, confidence = None,
      error = None, application_duration = None, ats_system = None, ats_confidence = None\<rparr>"

definition strategy_applied :: "string \<Rightarrow> (string \<times> pyval) list \<Rightarrow> rat \<Rightarrow> app_result" where
  "strategy_applied name filled conf =
     empty_result\<lparr>status := Some ''applied'', strategy := Some name,
                  fields_filled := Some filled, confidence := Some conf\<rparr>"

definition strategy_failed :: "string \<Rightarrow> exn \<Rightarrow> rat \<Rightarrow> app_result" where
  "strategy_failed name e conf =
     empty_result\<lparr>status := Some ''failed'', strategy := Some name,
                  error := Some e, confidence := Some conf\<rparr>"

text \<open>
  The job argument of the optimizer: a dictionary in insertion order, or \<open>None\<close> when
  the caller passes Python's \<^verbatim>\<open>None\<close>.
\<close>

type_synonym job_dict = "(string \<times> pyval) list"

type_synonym strategy_fun =
  "job_dict option \<Rightarrow> profile option \<Rightarrow> page \<Rightarrow> rat \<Rightarrow> exn + app_result \<times> page"

type_synonym strategy_body = "profile option \<Rightarrow> page \<Rightarrow> rat \<Rightarrow> (exn + app_result) \<times> page"

text \<open>
  Each strategy prints its banner and then has a \<^verbatim>\<open>try\<close> body and a handler for
  \<^verbatim>\<open>Exception\<close>. The body gives \<open>Inl e\<close> when it raises \<open>e\<close>, and the page as the
  body leaves it; the strategy then returns the failed result. The banner is printed
  before the \<^verbatim>\<open>try\<close>.
\<close>

definition workday_body :: strategy_body where
  "workday_body profile p conf =
     (case mapping_item ''workday'' of
        Inl e \<Rightarrow> (Inl e, p)
      | Inr mappings \<Rightarrow>
          (case fill_form_fields p profile mappings of
             (Inl e, p1) \<Rightarrow> (Inl e, p1)
           | (Inr filled_fields, p1) \<Rightarrow>
               (Inr (strategy_applied ''workday'' filled_fields conf), handle_workday_specifics p1)))"

definition apply_workday_strategy :: strategy_fun where
  "apply_workday_strategy job profile p conf =
     (case console_print ''[cyan]? Applying Workday strategy[/cyan]'' of
        Some e \<Rightarrow> Inl e
      | None \<Rightarrow>
          (case workday_body profile p conf of
             (Inl e, p') \<Rightarrow> Inr (strategy_failed ''workday'' e conf, p')
           | (Inr r, p') \<Rightarrow> Inr (r, p')))"

definition greenhouse_body :: strategy_body where
  "greenhouse_body profile p conf =
     (case mapping_item ''greenhouse'' of
        Inl e \<Rightarrow> (Inl e, p)
      | Inr mappings \<Rightarrow>
          (case fill_form_fields p profile mappings of
             (Inl e, p1) \<Rightarrow> (Inl e, p1)
           | (Inr filled_fields, p1) \<Rightarrow>
               (Inr (strategy_applied ''greenhouse'' filled_fields conf), p1)))"

definition apply_greenhouse_strategy :: strategy_fun where
  "apply_greenhouse_strategy job profile p conf =
     (case console_print ''[cyan]? Applying Greenhouse strategy[/cyan]'' of
        Some e \<Rightarrow> Inl e
      | None \<Rightarrow>
          (case greenhouse_body profile p conf of
             (Inl e, p') \<Rightarrow> Inr (strategy_failed ''greenhouse'' e conf, p')
           | (Inr r, p') \<Rightarrow> Inr (r, p')))"

definition lever_body :: strategy_body where
  "lever_body profile p conf =
     (case mapping_item ''generic'' of
        Inl e \<Rightarrow> (Inl e, p)
      | Inr generic \<Rightarrow>
          (let mappings = py_get (map_of form_field_mappings) ''lever'' generic
           in case fill_form_fields p profile mappings of
                (Inl e, p1) \<Rightarrow> (Inl e, p1)
              | (Inr filled_fields, p1) \<Rightarrow>
                  (Inr (strategy_applied ''lever'' filled_fields conf), p1)))"

definition apply_lever_strategy :: strategy_fun where
  "apply_lever_strategy job profile p conf =
     (case console_print ''[cyan]? Applying Lever strategy[/cyan]'' of
        Some e \<Rightarrow> Inl e
      | None \<Rightarrow>
          (case lever_body profile p conf of
             (Inl e, p') \<Rightarrow> Inr (strategy_failed ''lever'' e conf, p')
           | (Inr r, p') \<Rightarrow> Inr (r, p')))"

definition bamboohr_body :: strategy_body where
  "bamboohr_body profile p conf =
     (case mapping_item ''generic'' of
        Inl e \<Rightarrow> (Inl e, p)
      | Inr generic \<Rightarrow>
          (let mappings = py_get (map_of form_field_mappings) ''bamboohr'' generic
           in case fill_form_fields p profile mappings of
                (Inl e, p1) \<Rightarrow> (Inl e, p1)
              | (Inr filled_fields, p1) \<Rightarrow>
                  (Inr (strategy_applied ''bamboohr'' filled_fields conf), p1)))"

definition apply_bamboohr_strategy :: strategy_fun where
  "apply_bamboohr_strategy job profile p conf =
     (case console_print ''[cyan]? Applying BambooHR strategy[/cyan]'' of
        Some e \<Rightarrow> Inl e
      | None \<Rightarrow>
          (case bamboohr_body profile p conf of
             (Inl e, p') \<Rightarrow> Inr (strategy_failed ''bamboohr'' e conf, p')
           | (Inr r, p') \<Rightarrow> Inr (r, p')))"

definition generic_body :: strategy_body where
  "generic_body profile p conf =
     (case mapping_item ''generic'' of
        Inl e \<Rightarrow> (Inl e, p)
      | Inr mappings \<Rightarrow>
          (case fill_form_fields p profile mappings of
             (Inl e, p1) \<Rightarrow> (Inl e, p1)
           | (Inr filled_fields, p1) \<Rightarrow>
               (Inr (strategy_applied ''generic'' filled_fields conf), p1)))"

definition apply_generic_strategy :: strategy_fun where
  "apply_generic_strategy job profile p conf =
     (case console_print ''[cyan]? Applying generic strategy[/cyan]'' of
        Some e \<Rightarrow> Inl e
      | None \<Rightarrow>
          (case generic_body profile p conf of
             (Inl e, p') \<Rightarrow> Inr (strategy_failed ''generic'' e conf, p')
           | (Inr r, p') \<Rightarrow> Inr (r, p')))"

text \<open>The dispatch table \<^verbatim>\<open>self.strategies\<close>, and the bodies by the same keys.\<close>

definition strategies :: "(string \<times> strategy_fun) list" where
  "strategies =
     [(''workday'', apply_workday_strategy), (''greenhouse'', apply_greenhouse_strategy),
      (''lever'', apply_lever_strategy), (''bamboohr'', apply_bamboohr_strategy),
      (''generic'', apply_generic_strategy)]"

definition strategy_bodies :: "(string \<times> strategy_body) list" where
  "strategy_bodies =
     [(''workday'', workday_body), (''greenhouse'', greenhouse_body),
      (''lever'', lever_body), (''bamboohr'', bamboohr_body),
      (''generic'', generic_body)]"

subsection \<open>Strategy dispatcher\<close>

text \<open>
  The \<^verbatim>\<open>try\<close> of \<^verbatim>\<open>optimize_application_flow\<close> for a selected strategy function:
  on a normal return the result is completed and passed to the metrics updater; the
  handler prints the exception, builds a failed result and returns it without a metrics
  update. \<open>elapsed\<close> is \<^verbatim>\<open>time.time() - start_time\<close>.
\<close>

definition dispatch ::
  "strategy_fun \<Rightarrow> ApplicationMetrics \<Rightarrow> job_dict option \<Rightarrow> profile option \<Rightarrow> page \<Rightarrow> string
     \<Rightarrow> rat \<Rightarrow> rat \<Rightarrow> exn + app_result \<times> ApplicationMetrics \<times> page" where
  "dispatch strategy_func m job profile p ats conf elapsed =
     (case strategy_func job profile p conf of
        Inr (result, p') \<Rightarrow>
          (let r = result\<lparr>application_duration := Some elapsed, ats_system := Some ats,
                           ats_confidence := Some conf\<rparr>
           in Inr (r, update_application_metrics r m, p'))
      | Inl e \<Rightarrow>
          (case console_print (''[red]? Application optimization failed: '' @ e @ ''[/red]'') of
             Some e' \<Rightarrow> Inl e'
           | None \<Rightarrow>
               Inr (empty_result\<lparr>status := Some ''failed'', error := Some e,
                                  ats_system := Some ats, ats_confidence := Some conf,
                                  application_duration := Some elapsed\<rparr>,
                    m, p)))"

text \<open>
  \<^verbatim>\<open>optimize_application_flow\<close>, the function that the decorator \<^verbatim>\<open>with_retry\<close>
  wraps. The announcement of the job title, the detection and the strategy lookup are
  outside the \<^verbatim>\<open>try\<close>: \<^verbatim>\<open>job.get\<close> raises when the job is \<^verbatim>\<open>None\<close>, and the
  print raises when the title is not valid markup. The URL that the detector gets is the
  value under \<^verbatim>\<open>url\<close>, a string or not. \<open>Inl e\<close> says that the function raises
  \<open>e\<close>: no result is built and the metrics are not touched then. The decorator is not
  among the sources; a call that returns normally is taken to pass through it unchanged,
  and what it does with an exception of the function is left open.
\<close>

definition announcement :: "pyval \<Rightarrow> string" where
  "announcement title =
     [CHR 0x0A] @ ''[bold blue]? Optimizing application for: '' @ py_str title @ ''[/bold blue]''"

definition url_arg :: "pyval \<Rightarrow> string option" where
  "url_arg v = (case v of PStr s \<Rightarrow> Some s | _ \<Rightarrow> None)"

definition optimize_application_flow ::
  "ApplicationMetrics \<Rightarrow> job_dict option \<Rightarrow> profile option \<Rightarrow> page \<Rightarrow> rat
     \<Rightarrow> exn + app_result \<times> ApplicationMetrics \<times> page" where
  "optimize_application_flow m job profile p elapsed =
     (case job of
        None \<Rightarrow> Inl ''AttributeError: NoneType object has no attribute get''
      | Some jb \<Rightarrow>
          (case console_print (announcement (py_get (map_of jb) ''title'' (PStr ''Unknown''))) of
             Some e \<Rightarrow> Inl e
           | None \<Rightarrow>
               (case detect_ats_system p (url_arg (py_get (map_of jb) ''url'' (PStr ''''))) of
                  Inl e \<Rightarrow> Inl e
                | Inr (ats, conf) \<Rightarrow>
                    (let strategy_func = py_get (map_of strategies) ats apply_generic_strategy
                     in dispatch strategy_func m job profile p ats conf elapsed))))"

text \<open>
  A session: one call of the dispatcher per input, on the optimizer's metrics. A call
  that raises leaves the metrics as they are, however often it is repeated, and the
  session goes on with the next call.
\<close>

fun run_flows ::
  "ApplicationMetrics \<Rightarrow> (job_dict option \<times> profile option \<times> page \<times> rat) list
     \<Rightarrow> ApplicationMetrics" where
  "run_flows m [] = m"
| "run_flows m ((job, profile, p, elapsed) # rest) =
     (case optimize_application_flow m job profile p elapsed of
        Inl e \<Rightarrow> run_flows m rest
      | Inr (r, m', p') \<Rightarrow> run_flows m' rest)"

text \<open>Pages, profiles and jobs used as concrete inputs.\<close>

text \<open>
  One element, reached by every selector: it holds \<^verbatim>\<open>old@x.com\<close>, reading its value
  raises, and filling it succeeds.
\<close>

definition unreadable_page :: page where
  "unreadable_page =
     \<lparr>content = Inr '''',
      query_selector_all = (\<lambda>s. Inr [0]),
      query_selector = (\<lambda>s. Inr (Some 0)),
      elements = (\<lambda>i. blank_element\<lparr>elem_value := ''old@x.com'', input_value_raises := True\<rparr>),
      wait_raises = False, clicked = []\<rparr>"

text \<open>
  A form on which \<^verbatim>\<open>#email\<close> is element 0, already holding a value, and
  \<^verbatim>\<open>input[name*="email"]\<close> is element 1, empty; no other selector resolves.
\<close>

definition partly_filled_page :: page where
  \<open>partly_filled_page =
     \<lparr>content = Inr '''',
      query_selector_all = (\<lambda>s. Inr []),
      query_selector =
        (\<lambda>s. if s = ''#email'' then Inr (Some 0)
              else if s = ''input[name*="email"]'' then Inr (Some 1) else Inr None),
      elements = (\<lambda>i. if i = 0 then blank_element\<lparr>elem_value := ''a@b.c''\<rparr> else blank_element),
      wait_raises = False, clicked = []\<rparr>\<close>

definition profile_without_email :: profile where
  "profile_without_email = [''first_name'' \<mapsto> PStr ''Ada'']"

definition profile_empty_email :: profile where
  "profile_empty_email = [''first_name'' \<mapsto> PStr ''Ada'', ''email'' \<mapsto> PStr '''']"

text \<open>A profile read from JSON in which the email is \<^verbatim>\<open>null\<close>.\<close>

definition profile_null_email :: profile where
  "profile_null_email = [''first_name'' \<mapsto> PStr ''Ada'', ''email'' \<mapsto> PNone]"

definition example_job :: job_dict where
  "example_job = [(''url'', PStr ''https://example.com/job''), (''title'', PStr ''Engineer'')]"

text \<open>A job whose title ends in a closing tag that no tag opens.\<close>

definition tagged_title_job :: job_dict where
  "tagged_title_job =
     [(''url'', PStr ''https://example.com/job''), (''title'', PStr ''Engineer [/remote]'')]"

text \<open>
  The \<^verbatim>\<open>try\<close> body of the strategy that the dispatcher selects for a job and a page:
  \<open>Inl e\<close> when an exception \<open>e\<close> is raised inside that strategy, with the page as
  the body leaves it. The detector returns for every input, so its first case is there
  for the type only.
\<close>

definition selected_strategy_body ::
  "job_dict \<Rightarrow> profile option \<Rightarrow> page \<Rightarrow> (exn + app_result) \<times> page" where
  "selected_strategy_body jb profile p =
     (case detect_ats_system p (url_arg (py_get (map_of jb) ''url'' (PStr ''''))) of
        Inl e \<Rightarrow> (Inl e, p)
      | Inr (ats, conf) \<Rightarrow> (py_get (map_of strategy_bodies) ats generic_body) profile p conf)"

subsection \<open>CSV reader\<close>


text \<open>A job as the reader builds it: a dictionary of strings, in insertion order.\<close>

type_synonym job = "(string \<times> string) list"






subsection \<open>Batch runner\<close>

record stats =
  applied :: int
  failed :: int
  manual :: int
  total :: int
  retried :: int
  skipped :: int

definition zero_stats :: stats where
  "zero_stats = \<lparr>applied = 0, failed = 0, manual = 0, total = 0, retried = 0, skipped = 0\<rparr>"

text \<open>
  What the collaborators do in one pass of the retry loop of \<^verbatim>\<open>apply_to_jobs\<close>:
  \<^item> \<open>DocsFailed\<close>: \<^verbatim>\<open>_generate_documents_with_fallback\<close> returns an empty resume path;
  \<^item> \<open>NoSubmitter\<close>: \<^verbatim>\<open>_get_submitter_with_fallback\<close> returns \<^verbatim>\<open>None\<close>;
  \<^item> \<open>Submitted returned done_raises\<close>: \<^verbatim>\<open>_submit_application_with_timeout\<close> returns
    the status \<open>returned\<close> (\<open>None\<close> for Python's \<^verbatim>\<open>None\<close>), and \<open>done_raises\<close> tells whether
    recording the job as done (\<^verbatim>\<open>utils.hash_job\<close>, \<^verbatim>\<open>self.session\<close>,
    \<^verbatim>\<open>self.save_session\<close>) raises after a successful status;
  \<^item> \<open>Raised\<close>: an exception is raised in the \<^verbatim>\<open>try\<close> body before the statistics are
    updated (for instance a status that is not a string).
\<close>

datatype attempt =
    DocsFailed
  | NoSubmitter
  | Submitted "string option" bool
  | Raised

definition max_retries :: nat where
  "max_retries = 2"

definition status_applied :: "string option \<Rightarrow> bool" where
  "status_applied returned =
     (case returned of
        None \<Rightarrow> False
      | Some s \<Rightarrow> s \<noteq> '''' \<and> (is_in ''Applied'' s \<or> is_in ''Success'' s))"

definition status_manual :: "string option \<Rightarrow> bool" where
  "status_manual returned =
     (case returned of
        None \<Rightarrow> False
      | Some s \<Rightarrow> s \<noteq> '''' \<and> (is_in ''Manual'' s \<or> is_in ''Review'' s))"

text \<open>
  The \<^verbatim>\<open>while\<close> loop for one job. \<open>outcome k\<close> is what happens in the pass entered
  with \<^verbatim>\<open>retry_count = k\<close>. The \<^verbatim>\<open>except\<close> handler adds one to
  \<^verbatim>\<open>retry_count\<close>, counts a failure and breaks when the budget is used up, and
  otherwise falls through to the increment at the end of the loop body. The result is the
  statistics and \<^verbatim>\<open>application_successful\<close>.
\<close>

function attempt_loop :: "(nat \<Rightarrow> attempt) \<Rightarrow> nat \<Rightarrow> bool \<Rightarrow> stats \<Rightarrow> stats \<times> bool" where
  "attempt_loop outcome retry_count application_successful st =
     (if retry_count \<le> max_retries \<and> \<not> application_successful
      then
        (let st1 = (if retry_count > 0 then st\<lparr>retried := retried st + 1\<rparr> else st)
         in case outcome retry_count of
              DocsFailed \<Rightarrow> (st1, application_successful)
            | NoSubmitter \<Rightarrow> (st1, application_successful)
            | Raised \<Rightarrow>
                (if retry_count + 1 > max_retries
                 then (st1\<lparr>failed := failed st1 + 1\<rparr>, application_successful)
                 else attempt_loop outcome (retry_count + 2) application_successful st1)
            | Submitted returned done_raises \<Rightarrow>
                (if status_applied returned \<or> status_manual returned
                 then
                   (let st2 = (if status_applied returned
                               then st1\<lparr>applied := applied st1 + 1\<rparr>
                               else st1\<lparr>manual := manual st1 + 1\<rparr>)
                    in if done_raises
                       then (if retry_count + 1 > max_retries
                             then (st2\<lparr>failed := failed st2 + 1\<rparr>, True)
                             else attempt_loop outcome (retry_count + 2) True st2)
                       else (st2, True))
                 else
                   (let st2 = (if retry_count \<ge> max_retries
                               then st1\<lparr>failed := failed st1 + 1\<rparr> else st1)
                    in attempt_loop outcome (retry_count + 1) application_successful st2)))
      else (st, application_successful))"
  by pat_completeness auto
termination
  by (relation "measure (\<lambda>(outcome, retry_count, ok, st). Suc max_retries - retry_count)") auto

declare attempt_loop.simps [simp del]

text \<open>\<^verbatim>\<open>not job.get("url")\<close>: the key is absent or its value is empty.\<close>

definition no_url :: "job \<Rightarrow> bool" where
  "no_url job = (case map_of job ''url'' of None \<Rightarrow> True | Some u \<Rightarrow> u = '''')"

text \<open>The loop over the jobs; \<open>env i\<close> gives the outcomes for the job at index \<open>i\<close>.\<close>

fun job_loop :: "(nat \<Rightarrow> nat \<Rightarrow> attempt) \<Rightarrow> nat \<Rightarrow> job list \<Rightarrow> stats \<Rightarrow> stats" where
  "job_loop env i [] st = st"
| "job_loop env i (job # rest) st =
     (if no_url job
      then job_loop env (Suc i) rest (st\<lparr>skipped := skipped st + 1\<rparr>)
      else job_loop env (Suc i) rest (fst (attempt_loop (env i) 0 False st)))"

text \<open>
  \<^verbatim>\<open>apply_to_jobs\<close>: \<open>browser_ok\<close> tells whether the browser and its context can be
  opened; if not, the exception leaves the function. The prints of the runner are left
  out: the titles, companies, URLs, statuses and exception messages that they show are
  taken to have no closing tag without its opening tag, as is the case for the jobs of
  the scenarios below.
\<close>

definition apply_to_jobs :: "bool \<Rightarrow> (nat \<Rightarrow> nat \<Rightarrow> attempt) \<Rightarrow> job list \<Rightarrow> exn + stats" where
  "apply_to_jobs browser_ok env jobs =
     (if jobs = [] then Inr zero_stats
      else if browser_ok
      then Inr (job_loop env 0 jobs (zero_stats\<lparr>total := int (length jobs)\<rparr>))
      else Inl ''browser launch failed'')"

text \<open>The sum of the terminal buckets and the skips.\<close>

definition terminal_sum :: "stats \<Rightarrow> int" where
  "terminal_sum st = applied st + manual st + failed st + skipped st"


definition two_jobs :: "job list" where
  "two_jobs =
     [[(''url'', ''''), (''title'', ''X'')],
      [(''url'', ''http://a.com/job''), (''title'', ''Y'')]]"

definition job_y :: job where
  "job_y = [(''url'', ''http://a.com/job''), (''title'', ''Y'')]"


definition always_timeout :: "nat \<Rightarrow> nat \<Rightarrow> attempt" where
  "always_timeout i k = Submitted (Some ''Timeout'') False"

definition docs_fail :: "nat \<Rightarrow> nat \<Rightarrow> attempt" where
  "docs_fail i k = DocsFailed"

definition no_submitter :: "nat \<Rightarrow> nat \<Rightarrow> attempt" where
  "no_submitter i k = NoSubmitter"

text \<open>A timeout in the first pass, then an exception in the second.\<close>

definition timeout_then_raise :: "nat \<Rightarrow> nat \<Rightarrow> attempt" where
  "timeout_then_raise i k = (if k = 0 then Submitted (Some ''Timeout'') False else Raised)"

section \<open>Properties\<close>

subsection \<open>Metrics\<close>

lemma update_total_attempts:
  "total_attempts (update_application_metrics r m) = total_attempts m + 1"
  by (simp add: update_application_metrics_def Let_def count_status_def)

lemma update_outcome_sum:
  "outcome_sum (update_application_metrics r m) =
     outcome_sum m + (if bucketed r then 1 else 0)"
  by (cases "status r")
     (simp_all add: update_application_metrics_def Let_def count_status_def outcome_sum_def
        bucketed_def)

lemma record_all_snoc:
  "record_all m (rs @ [r]) = update_application_metrics r (record_all m rs)"
  by (simp add: record_all_def)

lemma record_all_total:
  "total_attempts (record_all m rs) = total_attempts m + int (length rs)"
  by (induction rs rule: rev_induct) (simp_all add: record_all_snoc update_total_attempts, simp add: record_all_def)

lemma record_all_outcome_sum:
  "outcome_sum (record_all m rs) = outcome_sum m + int (length (filter bucketed rs))"
  by (induction rs rule: rev_induct) (simp_all add: record_all_snoc update_outcome_sum, simp add: record_all_def)

lemma update_buckets:
  "successful_applications (update_application_metrics r m) =
     successful_applications m + (if status r = Some ''applied'' then 1 else 0)"
  "failed_applications (update_application_metrics r m) =
     failed_applications m + (if status r = Some ''failed'' then 1 else 0)"
  "manual_reviews_required (update_application_metrics r m) =
     manual_reviews_required m + (if status r = Some ''manual_review'' then 1 else 0)"
  by (cases "status r";
      simp add: update_application_metrics_def Let_def count_status_def)+

lemma record_all_buckets:
  "successful_applications (record_all m rs) =
     successful_applications m + int (length (filter (\<lambda>r. status r = Some ''applied'') rs))"
  "failed_applications (record_all m rs) =
     failed_applications m + int (length (filter (\<lambda>r. status r = Some ''failed'') rs))"
  "manual_reviews_required (record_all m rs) =
     manual_reviews_required m
     + int (length (filter (\<lambda>r. status r = Some ''manual_review'') rs))"
proof (induction rs rule: rev_induct)
  case Nil
  {
    case 1 show ?case by (simp add: record_all_def)
  next
    case 2 show ?case by (simp add: record_all_def)
  next
    case 3 show ?case by (simp add: record_all_def)
  }
next
  case (snoc r rs)
  {
    case 1 with snoc show ?case by (simp add: record_all_snoc update_buckets)
  next
    case 2 with snoc show ?case by (simp add: record_all_snoc update_buckets)
  next
    case 3 with snoc show ?case by (simp add: record_all_snoc update_buckets)
  }
qed

text \<open>
  C1, as stated, fails: a result whose status is none of the three bucketed ones (here
  \<^verbatim>\<open>'timeout'\<close>) raises \<open>total_attempts\<close> and no bucket.
\<close>

theorem metrics_invariant_counterexample:
  "total_attempts (record_all initial_metrics [timeout_result]) \<noteq>
     successful_applications (record_all initial_metrics [timeout_result])
     + failed_applications (record_all initial_metrics [timeout_result])
     + manual_reviews_required (record_all initial_metrics [timeout_result])"
  by (simp add: record_all_def update_application_metrics_def Let_def count_status_def
      initial_metrics_def timeout_result_def)

text \<open>
  C1, amended: every call of the metrics updater raises \<open>total_attempts\<close> by one and
  at most one outcome bucket by one: \<open>successful_applications\<close> when the status is
  \<^verbatim>\<open>'applied'\<close>, \<open>failed_applications\<close> when it is \<^verbatim>\<open>'failed'\<close>,
  \<open>manual_reviews_required\<close> when it is \<^verbatim>\<open>'manual_review'\<close>, and none for any
  other status; a bucket whose status it is not stays as it is. After a sequence of
  results each bucket has grown by the number of results of its status. Hence, from
  metrics that satisfy \<open>total_attempts = successful + failed + manual_reviews\<close>, after
  any sequence of results the total is the bucket sum plus the number of results whose
  status is none of the three; the equality is kept exactly when every recorded status is
  one of these three.
\<close>

theorem metrics_invariant_bucketed:
  assumes "total_attempts m = outcome_sum m"
  shows "total_attempts (update_application_metrics r m) = total_attempts m + 1
       \<and> successful_applications (update_application_metrics r m) =
           successful_applications m + (if status r = Some ''applied'' then 1 else 0)
       \<and> failed_applications (update_application_metrics r m) =
           failed_applications m + (if status r = Some ''failed'' then 1 else 0)
       \<and> manual_reviews_required (update_application_metrics r m) =
           manual_reviews_required m + (if status r = Some ''manual_review'' then 1 else 0)
       \<and> outcome_sum (update_application_metrics r m) = outcome_sum m + (if bucketed r then 1 else 0)
       \<and> successful_applications (record_all m rs) =
           successful_applications m
           + int (length (filter (\<lambda>r. status r = Some ''applied'') rs))
       \<and> failed_applications (record_all m rs) =
           failed_applications m + int (length (filter (\<lambda>r. status r = Some ''failed'') rs))
       \<and> manual_reviews_required (record_all m rs) =
           manual_reviews_required m
           + int (length (filter (\<lambda>r. status r = Some ''manual_review'') rs))
       \<and> total_attempts (record_all m rs) = total_attempts m + int (length rs)
       \<and> total_attempts (record_all m rs) =
           outcome_sum (record_all m rs) + int (length (filter (\<lambda>r. \<not> bucketed r) rs))
       \<and> ((total_attempts (record_all m rs) = outcome_sum (record_all m rs))
           = (\<forall>r \<in> set rs. bucketed r))"
proof -
  have len: "length rs = length (filter bucketed rs) + length (filter (\<lambda>r. \<not> bucketed r) rs)"
    by (simp add: sum_length_filter_compl)
  have first: "total_attempts (record_all m rs) =
           outcome_sum (record_all m rs) + int (length (filter (\<lambda>r. \<not> bucketed r) rs))"
    using assms len by (simp add: record_all_total record_all_outcome_sum)
  have "(length (filter (\<lambda>r. \<not> bucketed r) rs) = 0) = (\<forall>r \<in> set rs. bucketed r)"
    by (simp add: filter_empty_conv)
  then have second: "(total_attempts (record_all m rs) = outcome_sum (record_all m rs))
           = (\<forall>r \<in> set rs. bucketed r)"
    using first by simp
  show ?thesis
    by (intro conjI)
       (rule update_total_attempts update_buckets update_outcome_sum record_all_buckets
          record_all_total first second)+
qed

theorem metrics_invariant_bucketed_witness:
  "total_attempts initial_metrics = outcome_sum initial_metrics
   \<and> total_attempts (record_all initial_metrics [applied_result, timeout_result]) =
       outcome_sum (record_all initial_metrics [applied_result, timeout_result]) + 1
   \<and> total_attempts (record_all initial_metrics [applied_result, timeout_result]) = 2
   \<and> successful_applications (record_all initial_metrics [applied_result, timeout_result]) = 1
   \<and> failed_applications (record_all initial_metrics [applied_result, timeout_result]) = 0
   \<and> manual_reviews_required (record_all initial_metrics [applied_result, timeout_result]) = 0"
  using metrics_invariant_bucketed [of initial_metrics applied_result "[applied_result, timeout_result]"]
  by (simp add: initial_metrics_def outcome_sum_def bucketed_def applied_result_def
      timeout_result_def)

subsection \<open>Detector\<close>

lemma foldl_weight_count:
  fixes c0 w :: rat
  shows "foldl (\<lambda>c x. if P x then c + w else c) c0 xs = c0 + w * of_nat (length (filter P xs))"
  by (induction xs arbitrary: c0) (simp_all add: algebra_simps)

lemma vendor_confidence_spec_score:
  "vendor_confidence p page_content patterns = spec_score p page_content patterns"
  by (simp add: vendor_confidence_def spec_score_def Let_def foldl_weight_count)

lemma spec_score_nonneg: "0 \<le> spec_score p t pat"
  by (simp add: spec_score_def)

lemma spec_score_le_max: "spec_score p t pat \<le> max_score pat"
proof -
  have a: "(of_nat (length (filter (probe_hit p) (dom_selectors pat))) :: rat)
             \<le> of_nat (length (dom_selectors pat))"
    by simp
  have b: "(of_nat (length (filter (\<lambda>x. is_in (lower x) (lower t)) (text_indicators pat))) :: rat)
             \<le> of_nat (length (text_indicators pat))"
    by simp
  have c: "(of_nat (length (filter (probe_hit p) (form_patterns pat))) :: rat)
             \<le> of_nat (length (form_patterns pat))"
    by simp
  show ?thesis
    unfolding spec_score_def max_score_def using a b c by linarith
qed

lemma catalog_max_score: "\<forall>(n, pat) \<in> set ats_patterns. max_score pat \<le> 3 / 2"
  by (simp add: ats_patterns_def max_score_def)

lemma dom_detect_find:
  "dom_detect p t pats =
     (case find (\<lambda>(n, pat). spec_score p t pat \<ge> 6 / 10) pats of
        None \<Rightarrow> (''generic'', 3 / 10)
      | Some (n, pat) \<Rightarrow> (n, spec_score p t pat))"
  by (induction pats) (auto simp: Let_def vendor_confidence_spec_score)

lemma dom_detect_bounds:
  assumes "\<forall>(n, pat) \<in> set pats. max_score pat \<le> 3 / 2"
  shows "3 / 10 \<le> snd (dom_detect p t pats) \<and> snd (dom_detect p t pats) \<le> 3 / 2"
  using assms
proof (induction pats)
  case Nil
  then show ?case by simp
next
  case (Cons a pats)
  obtain n pat where a: "a = (n, pat)" by (cases a)
  have "spec_score p t pat \<le> 3 / 2"
    using Cons.prems a spec_score_le_max [of p t pat] by auto
  with Cons a show ?case
    by (auto simp: Let_def vendor_confidence_spec_score)
qed

lemma dom_detect_below:
  "\<forall>(n, pat) \<in> set pats. vendor_confidence p t pat < 6 / 10 \<Longrightarrow>
   dom_detect p t pats = (''generic'', 3 / 10)"
  by (induction pats) (auto simp: Let_def)

lemma url_detect_first:
  assumes "i < length pats"
    and "\<exists>s \<in> set (url_patterns (snd (pats ! i))). is_in s u"
    and "\<forall>j<i. \<not> (\<exists>s \<in> set (url_patterns (snd (pats ! j))). is_in s u)"
  shows "url_detect pats u = Some (fst (pats ! i))"
  using assms
proof (induction pats arbitrary: i)
  case Nil
  then show ?case by simp
next
  case (Cons a pats)
  obtain n pat where a: "a = (n, pat)" by (cases a)
  show ?case
  proof (cases i)
    case 0
    with Cons.prems a show ?thesis by (auto simp: list_ex_iff)
  next
    case (Suc k)
    have no0: "\<not> (\<exists>s \<in> set (url_patterns pat). is_in s u)"
      using Cons.prems(3) Suc a by fastforce
    have "url_detect pats u = Some (fst (pats ! k))"
    proof (rule Cons.IH)
      show "k < length pats" using Cons.prems(1) Suc by simp
      show "\<exists>s \<in> set (url_patterns (snd (pats ! k))). is_in s u"
        using Cons.prems(2) Suc by simp
      show "\<forall>j<k. \<not> (\<exists>s \<in> set (url_patterns (snd (pats ! j))). is_in s u)"
        using Cons.prems(3) Suc by fastforce
    qed
    with no0 a Suc show ?thesis by (simp add: list_ex_iff)
  qed
qed

text \<open>
  C2, as stated, fails in its upper bound: on a page where every Workday probe matches
  and the text names Workday, with a URL that matches no vendor, the detector returns
  Workday with confidence 0.3 * 3 + 0.2 * 2 + 0.2 = 1.5, which is more than 1.
\<close>

theorem detect_confidence_counterexample:
  "detect_ats_system all_match_page (Some ''https://example.com/job'') = Inr (''workday'', 3 / 2)
   \<and> \<not> ((3 / 2 :: rat) \<le> 1)"
  by code_simp

text \<open>
  C2, amended: for every page and every URL argument, also when the probes raise,
  \<open>detect_ats_system\<close> returns a pair of a vendor and a confidence and never raises; the
  confidence is at least 0 and at most 1.5 (nothing clamps the accumulated score to 1).
  When an exception reaches the outer handler the result is generic with 0.1, and when
  no URL pattern matches and no vendor reaches the threshold it is generic with 0.3.
\<close>

theorem detect_never_raises_bounds:
  "\<exists>v c. detect_ats_system p job_url = Inr (v, c) \<and> 0 \<le> c \<and> c \<le> 3 / 2
     \<and> ((\<exists>e. detect_body p job_url = Inl e) \<longrightarrow> (v, c) = (''generic'', 1 / 10))
     \<and> ((\<exists>u. job_url = Some u \<and> url_detect ats_patterns (lower u) = None
            \<and> (\<forall>(n, pat) \<in> set ats_patterns.
                 vendor_confidence p (safe_execute (content p) '''') pat < 6 / 10))
          \<longrightarrow> (v, c) = (''generic'', 3 / 10))"
proof (cases job_url)
  case None
  show ?thesis
    by (rule exI [of _ "''generic''"], rule exI [of _ "1 / 10"])
       (simp add: None detect_ats_system_def detect_body_def)
next
  case (Some u)
  note u = Some
  show ?thesis
  proof (cases "url_detect ats_patterns (lower u)")
    case (Some n)
    show ?thesis
      by (rule exI [of _ n], rule exI [of _ "9 / 10"])
         (simp add: u Some detect_ats_system_def detect_body_def)
  next
    case None
    let ?t = "safe_execute (content p) ''''"
    obtain v c where vc: "dom_detect p ?t ats_patterns = (v, c)"
      by (cases "dom_detect p ?t ats_patterns")
    have body: "detect_body p job_url = Inr (v, c)"
      using None u vc by (simp add: detect_body_def)
    have eq: "detect_ats_system p job_url = Inr (v, c)"
      using body by (simp add: detect_ats_system_def)
    have b: "3 / 10 \<le> c \<and> c \<le> 3 / 2"
      using dom_detect_bounds [OF catalog_max_score, of p ?t] vc by simp
    have below: "(\<forall>(n, pat) \<in> set ats_patterns. vendor_confidence p ?t pat < 6 / 10)
          \<longrightarrow> (v, c) = (''generic'', 3 / 10)"
      using dom_detect_below [of ats_patterns p ?t] vc by auto
    show ?thesis
      by (rule exI [of _ v], rule exI [of _ c]) (use eq body b below in auto)
  qed
qed

theorem detect_never_raises_bounds_witness:
  "detect_body no_dom_page None = Inl ''AttributeError: object has no attribute lower''
   \<and> detect_ats_system no_dom_page None = Inr (''generic'', 1 / 10)
   \<and> url_detect ats_patterns (lower ''https://example.com/job'') = None
   \<and> list_all (\<lambda>(n, pat).
         vendor_confidence no_dom_page (safe_execute (content no_dom_page) '''') pat < 6 / 10)
        ats_patterns
   \<and> detect_ats_system no_dom_page (Some ''https://example.com/job'') = Inr (''generic'', 3 / 10)"
proof -
  have a: "detect_body no_dom_page None = Inl ''AttributeError: object has no attribute lower''"
    by (simp add: detect_body_def)
  have b: "url_detect ats_patterns (lower ''https://example.com/job'') = None"
    by code_simp
  have c': "list_all (\<lambda>(n, pat).
         vendor_confidence no_dom_page (safe_execute (content no_dom_page) '''') pat < 6 / 10)
        ats_patterns"
    by code_simp
  then have c: "\<forall>(n, pat) \<in> set ats_patterns.
         vendor_confidence no_dom_page (safe_execute (content no_dom_page) '''') pat < 6 / 10"
    by (simp add: list_all_iff)
  from detect_never_raises_bounds [of no_dom_page None] a
  have d: "detect_ats_system no_dom_page None = Inr (''generic'', 1 / 10)"
    by auto
  from detect_never_raises_bounds [of no_dom_page "Some ''https://example.com/job''"] b c
  have e: "detect_ats_system no_dom_page (Some ''https://example.com/job'') = Inr (''generic'', 3 / 10)"
    by auto
  show ?thesis using a b c' d e by blast
qed

text \<open>
  C5, as stated, fails: a URL may contain URL substrings of two vendors, and the URL loop
  returns the first vendor in table order. This URL contains \<^verbatim>\<open>greenhouse.io\<close>, yet
  the detector returns Workday, because it also contains \<^verbatim>\<open>workday.com\<close>.
\<close>

theorem url_match_counterexample:
  "is_in ''greenhouse.io'' (lower ''https://boards.greenhouse.io/acme/jobs/1?src=workday.com'')
   \<and> detect_ats_system no_dom_page (Some ''https://boards.greenhouse.io/acme/jobs/1?src=workday.com'')
       = Inr (''workday'', 9 / 10)"
  by code_simp

text \<open>
  C5, amended: for every job URL, the first vendor in catalog order one of whose URL
  substrings is contained in the lower-cased URL is returned with confidence exactly 0.9,
  whatever the page is (no DOM, text or form probe is consulted). A vendor is therefore
  returned for each URL that contains one of its substrings and none of the substrings of
  the vendors listed before it. In particular
  \<^verbatim>\<open>https://boards.greenhouse.io/acme/123\<close> with no DOM access gives greenhouse with 0.9.
\<close>

theorem url_match_first_vendor:
  assumes "i < length ats_patterns"
    and "\<exists>s \<in> set (url_patterns (snd (ats_patterns ! i))). is_in s (lower u)"
    and "\<forall>j<i. \<not> (\<exists>s \<in> set (url_patterns (snd (ats_patterns ! j))). is_in s (lower u))"
  shows "detect_ats_system p (Some u) = Inr (fst (ats_patterns ! i), 9 / 10)"
  using url_detect_first [OF assms] by (simp add: detect_ats_system_def detect_body_def)

theorem url_match_first_vendor_witness:
  "Suc 0 < length ats_patterns
   \<and> (\<exists>s \<in> set (url_patterns (snd (ats_patterns ! Suc 0))).
         is_in s (lower ''https://boards.greenhouse.io/acme/123''))
   \<and> \<not> (\<exists>s \<in> set (url_patterns (snd (ats_patterns ! 0))).
         is_in s (lower ''https://boards.greenhouse.io/acme/123''))
   \<and> detect_ats_system no_dom_page (Some ''https://boards.greenhouse.io/acme/123'')
       = Inr (''greenhouse'', 9 / 10)"
proof -
  have a: "Suc 0 < length ats_patterns" by (simp add: ats_patterns_def)
  have b: "\<exists>s \<in> set (url_patterns (snd (ats_patterns ! Suc 0))).
         is_in s (lower ''https://boards.greenhouse.io/acme/123'')"
    by code_simp
  have c': "\<not> (\<exists>s \<in> set (url_patterns (snd (ats_patterns ! 0))).
         is_in s (lower ''https://boards.greenhouse.io/acme/123''))"
    by code_simp
  then have c: "\<forall>j<Suc 0. \<not> (\<exists>s \<in> set (url_patterns (snd (ats_patterns ! j))).
         is_in s (lower ''https://boards.greenhouse.io/acme/123''))"
    by simp
  have d: "fst (ats_patterns ! Suc 0) = ''greenhouse''" by (simp add: ats_patterns_def)
  show ?thesis
    using a b c' d url_match_first_vendor [OF a b c, of no_dom_page] by simp
qed

text \<open>
  C6: in the DOM-scoring fallback (no URL pattern matches), the confidence accumulated
  for a vendor is 0.3 for each DOM selector matching at least one element, plus 0.2 for
  each text indicator found case-insensitively in the page content, plus 0.2 for each form
  selector matching at least one element; and the detector returns the first vendor in
  catalog order whose confidence is at least 0.6, with that confidence, or generic with
  0.3 when there is none. The witness is a page on which greenhouse reaches 0.6 and is
  returned although lever, later in the table, scores 1.0.
\<close>

theorem dom_scoring_first_threshold:
  assumes "url_detect ats_patterns (lower u) = None"
  shows "vendor_confidence p page_content patterns =
           3 / 10 * of_nat (length (filter (probe_hit p) (dom_selectors patterns)))
           + 2 / 10 * of_nat (length (filter (\<lambda>t. is_in (lower t) (lower page_content))
                                  (text_indicators patterns)))
           + 2 / 10 * of_nat (length (filter (probe_hit p) (form_patterns patterns)))
       \<and> detect_ats_system p (Some u) =
           Inr (case find (\<lambda>(n, pat). spec_score p (safe_execute (content p) '''') pat \<ge> 6 / 10)
                       ats_patterns of
                  None \<Rightarrow> (''generic'', 3 / 10)
                | Some (n, pat) \<Rightarrow> (n, spec_score p (safe_execute (content p) '''') pat))"
proof -
  have a: "vendor_confidence p page_content patterns =
           3 / 10 * of_nat (length (filter (probe_hit p) (dom_selectors patterns)))
           + 2 / 10 * of_nat (length (filter (\<lambda>t. is_in (lower t) (lower page_content))
                                  (text_indicators patterns)))
           + 2 / 10 * of_nat (length (filter (probe_hit p) (form_patterns patterns)))"
    unfolding vendor_confidence_spec_score spec_score_def by (rule refl)
  have b: "detect_ats_system p (Some u) =
             Inr (dom_detect p (safe_execute (content p) []) ats_patterns)"
    using assms by (simp add: detect_ats_system_def detect_body_def)
  show ?thesis
    by (rule conjI [OF a]) (simp only: b dom_detect_find)
qed

theorem dom_scoring_first_threshold_witness:
  "url_detect ats_patterns (lower ''https://example.com/job'') = None
   \<and> detect_ats_system lever_like_page (Some ''https://example.com/job'')
       = Inr (''greenhouse'', 6 / 10)
   \<and> spec_score lever_like_page (safe_execute (content lever_like_page) '''')
        (snd (ats_patterns ! 2)) = 1"
proof -
  have a: "url_detect ats_patterns (lower ''https://example.com/job'') = None"
    by code_simp
  have b: "(case find (\<lambda>(n, pat). spec_score lever_like_page
                 (safe_execute (content lever_like_page) '''') pat \<ge> 6 / 10) ats_patterns of
                  None \<Rightarrow> (''generic'', 3 / 10)
                | Some (n, pat) \<Rightarrow> (n, spec_score lever_like_page
                     (safe_execute (content lever_like_page) '''') pat))
           = (''greenhouse'', 6 / 10)"
    by code_simp
  have c: "spec_score lever_like_page (safe_execute (content lever_like_page) '''')
        (snd (ats_patterns ! 2)) = 1"
    by code_simp
  show ?thesis
    using a b c dom_scoring_first_threshold [OF a, of lever_like_page]
    by simp
qed

subsection \<open>Field filler\<close>

lemma generic_mapping_size_eq: "generic_mapping_size = int (length generic_mapping)"
  by (simp add: generic_mapping_size_def generic_mapping_def)

lemma try_fill_field_first_fillable:
  "try_fill_field p selectors (PStr s) =
     (case first_fillable p selectors of
        None \<Rightarrow> (False, p)
      | Some i \<Rightarrow> (True, fill_element p i s))"
proof (induction selectors)
  case Nil
  then show ?case by (simp add: first_fillable_def)
next
  case (Cons s selectors)
  then show ?case
    by (auto simp: first_fillable_def fillable_def safe_execute_def input_value_def Let_def
        split: sum.splits option.splits)
qed

lemma fill_not_string: "\<forall>s. v \<noteq> PStr s \<Longrightarrow> fill p i v = Inl ''Error: value: expected string''"
  by (cases v) simp_all

lemma try_fill_field_not_string:
  assumes "\<forall>s. v \<noteq> PStr s"
  shows "try_fill_field p selectors v = (False, p)"
  by (induction selectors)
     (simp_all add: fill_not_string [OF assms] Let_def split: sum.splits option.splits)

lemma try_fill_field_by_value:
  "try_fill_field p selectors v =
     (case v of
        PStr s \<Rightarrow>
          (case first_fillable p selectors of
             None \<Rightarrow> (False, p)
           | Some j \<Rightarrow> (True, fill_element p j s))
      | _ \<Rightarrow> (False, p))"
  by (cases v) (simp_all add: try_fill_field_first_fillable try_fill_field_not_string)

lemma first_fillable_target:
  assumes "first_fillable p selectors = Some i"
  shows "(input_value_raises (elements p i) \<or> elem_value (elements p i) = '''')
         \<and> \<not> fill_raises (elements p i)"
proof -
  from assms obtain s where "fillable p s = Some i"
    by (auto simp: first_fillable_def split: option.splits)
  then show ?thesis
    by (auto simp: fillable_def split: sum.splits option.splits if_splits)
qed

lemma elements_fill_element_other:
  "j \<noteq> i \<Longrightarrow> elements (fill_element p i v) j = elements p j"
  by (simp add: fill_element_def)

lemma try_fill_field_keeps:
  assumes "\<not> input_value_raises (elements p i)" and "elem_value (elements p i) \<noteq> ''''"
  shows "elements (snd (try_fill_field p selectors v)) i = elements p i"
proof (cases "\<exists>s. v = PStr s")
  case False
  then show ?thesis by (simp add: try_fill_field_not_string)
next
  case True
  then obtain s where v: "v = PStr s" by blast
  show ?thesis
  proof (cases "first_fillable p selectors")
    case None
    then show ?thesis by (simp add: v try_fill_field_first_fillable)
  next
    case (Some j)
    have "j \<noteq> i" using first_fillable_target [OF Some] assms by auto
    then show ?thesis
      by (simp add: v try_fill_field_first_fillable Some elements_fill_element_other)
  qed
qed

lemma fill_loop_keeps:
  assumes "\<not> input_value_raises (elements p i)" and "elem_value (elements p i) \<noteq> ''''"
  shows "elements (snd (fill_loop p pd mappings filled)) i = elements p i"
  using assms
proof (induction mappings arbitrary: p filled)
  case Nil
  then show ?case by simp
next
  case (Cons a mappings)
  obtain field_name selectors where a: "a = (field_name, selectors)" by (cases a)
  show ?case
  proof (cases "map_of pd field_name")
    case None
    with Cons a show ?thesis by simp
  next
    case (Some v)
    show ?thesis
    proof (cases "truthy v")
      case False
      with Cons a Some show ?thesis by simp
    next
      case True
      obtain ok p' where r: "try_fill_field p selectors v = (ok, p')"
        by (cases "try_fill_field p selectors v")
      have keep: "elements p' i = elements p i"
        using try_fill_field_keeps [OF Cons.prems, of selectors v] r by simp
      have "elements (snd (fill_loop p' pd mappings f)) i = elements p' i" for f
        by (rule Cons.IH) (use keep Cons.prems in simp_all)
      with a Some True r keep show ?thesis
        by (cases ok) (simp_all split: option.splits)
    qed
  qed
qed

lemma fill_form_fields_keeps:
  assumes "\<not> input_value_raises (elements p i)" and "elem_value (elements p i) \<noteq> ''''"
  shows "elements (snd (fill_form_fields p profile mappings)) i = elements p i"
  by (cases profile) (simp_all add: fill_form_fields_def fill_loop_keeps [OF assms])

text \<open>
  C7, as stated, fails: the current value is read through \<open>safe_execute\<close> with
  default \<^verbatim>\<open>""\<close>, so an element whose \<^verbatim>\<open>input_value()\<close> raises is taken to be
  empty and is filled although it holds a value. Here the element holds
  \<^verbatim>\<open>old@x.com\<close> before the call and \<^verbatim>\<open>new@x.com\<close> after it.
\<close>

theorem filler_overwrites_counterexample:
  "elem_value (elements unreadable_page 0) = ''old@x.com''
   \<and> fst (try_fill_field unreadable_page [''#email''] (PStr ''new@x.com''))
   \<and> elem_value (elements (snd (try_fill_field unreadable_page [''#email''] (PStr ''new@x.com''))) 0)
       = ''new@x.com''"
  by code_simp

text \<open>
  C7, amended: for every selector list, fill value and page state, the field filler never
  writes into an element whose current value reads as non-empty. \<^verbatim>\<open>_try_fill_field\<close>
  writes only into the element of the first candidate selector, in order, that resolves
  to an existing element whose value reads as empty (a value that cannot be read counts as
  empty) and whose \<^verbatim>\<open>fill\<close> does not raise, and reports failure and changes nothing
  when there is none, or when the value is not a string. Every element whose value can be
  read and is non-empty is left as it is by \<^verbatim>\<open>_try_fill_field\<close> and by
  \<^verbatim>\<open>_fill_form_fields\<close>, also when the latter raises, so running the filler again on
  a partially filled form writes only into elements that read as empty.
\<close>

theorem filler_keeps_readable_values:
  "try_fill_field p selectors (PStr s) =
     (case first_fillable p selectors of
        None \<Rightarrow> (False, p)
      | Some j \<Rightarrow> (True, fill_element p j s))
   \<and> try_fill_field p selectors v =
       (case v of
          PStr s \<Rightarrow>
            (case first_fillable p selectors of
               None \<Rightarrow> (False, p)
             | Some j \<Rightarrow> (True, fill_element p j s))
        | _ \<Rightarrow> (False, p))
   \<and> (\<not> input_value_raises (elements p i) \<and> elem_value (elements p i) \<noteq> '''' \<longrightarrow>
        elements (snd (try_fill_field p selectors v)) i = elements p i
        \<and> elements (snd (fill_form_fields p profile mappings)) i = elements p i)"
  using try_fill_field_first_fillable [of p selectors s] try_fill_field_by_value [of p selectors v]
    try_fill_field_keeps [of p i selectors v] fill_form_fields_keeps [of p i profile mappings]
  by blast

theorem filler_keeps_readable_values_witness:
  \<open>first_fillable partly_filled_page [''#email'', ''input[name*="email"]''] = Some 1
   \<and> fst (try_fill_field partly_filled_page [''#email'', ''input[name*="email"]'']
            (PStr ''n@x.com''))
   \<and> \<not> input_value_raises (elements partly_filled_page 0)
   \<and> elem_value (elements partly_filled_page 0) \<noteq> ''''
   \<and> elem_value (elements (snd (try_fill_field partly_filled_page
            [''#email'', ''input[name*="email"]''] (PStr ''n@x.com''))) 0) = ''a@b.c''
   \<and> elem_value (elements (snd (try_fill_field partly_filled_page
            [''#email'', ''input[name*="email"]''] (PStr ''n@x.com''))) 1) = ''n@x.com''
   \<and> elem_value (elements (snd (fill_form_fields partly_filled_page
            (Some profile_without_email) generic_mapping)) 0) = ''a@b.c''\<close>
proof -
  let ?sels = \<open>[''#email'', ''input[name*="email"]'']\<close>
  have a: "first_fillable partly_filled_page ?sels = Some 1"
    by code_simp
  have b: "\<not> input_value_raises (elements partly_filled_page 0)"
    by code_simp
  have c: "elem_value (elements partly_filled_page 0) \<noteq> ''''"
    by code_simp
  have d: "elem_value (elements partly_filled_page 0) = ''a@b.c''"
    by code_simp
  have e: "elem_value (elements (fill_element partly_filled_page 1 ''n@x.com'') 1) = ''n@x.com''"
    by (simp add: fill_element_def)
  note T = filler_keeps_readable_values
    [of partly_filled_page ?sels "''n@x.com''" "PStr ''n@x.com''" 0
       "Some profile_without_email" generic_mapping]
  have t1: "try_fill_field partly_filled_page ?sels (PStr ''n@x.com'')
              = (True, fill_element partly_filled_page 1 ''n@x.com'')"
    using T [THEN conjunct1] by (simp only: a option.case)
  have t2: "elements (snd (try_fill_field partly_filled_page ?sels (PStr ''n@x.com''))) 0
              = elements partly_filled_page 0"
    using T [THEN conjunct2, THEN conjunct2] b c by blast
  have t3: "elements (snd (fill_form_fields partly_filled_page
              (Some profile_without_email) generic_mapping)) 0
              = elements partly_filled_page 0"
    using T [THEN conjunct2, THEN conjunct2] b c by blast
  show ?thesis
    using a b c d e t1 t2 t3 by (simp del: try_fill_field.simps)
qed

subsection \<open>Email default\<close>

lemma fill_loop_skip_falsy:
  assumes "map_of pd name = Some v" and "\<not> truthy v"
  shows "fill_loop p pd mappings filled
           = fill_loop p pd (filter (\<lambda>(f, s). f \<noteq> name) mappings) filled"
  using assms
proof (induction mappings arbitrary: p filled)
  case Nil
  then show ?case by simp
next
  case (Cons a mappings)
  obtain f s where a: "a = (f, s)" by (cases a)
  show ?case
  proof (cases "f = name")
    case True
    with Cons a show ?thesis by simp
  next
    case False
    with Cons a show ?thesis
      by (auto split: option.splits prod.splits bool.splits)
  qed
qed

lemma email_texts_print:
  "console_print (filled_text ''email'' (PStr ''Nirajan.tech@gmail.com'')) = None"
  "console_print (could_not_fill_text ''email'') = None"
  by code_simp+

lemma falsy_values:
  "(\<not> truthy v) =
     (v = PNone \<or> v = PBool False \<or> v = PInt 0 \<or> v = PStr '''' \<or> (\<exists>s. v = PObj False s))"
  by (cases v) auto

text \<open>
  C9, as stated, fails: the test is \<^verbatim>\<open>if value:\<close>, so the email field is skipped not
  only for the empty string but for every value that Python takes as false. For a profile
  whose email is \<^verbatim>\<open>None\<close> (a JSON \<^verbatim>\<open>null\<close>), or \<^verbatim>\<open>0\<close>, nothing is filled and
  the empty email element stays empty, while without the key the default address is
  filled in.
\<close>

theorem email_null_skipped_counterexample:
  \<open>profile_null_email ''email'' = Some PNone
   \<and> PNone \<noteq> PStr ''''
   \<and> fst (fill_form_fields partly_filled_page (Some profile_null_email)
            [(''email'', [''#email'', ''input[name*="email"]''])]) = Inr []
   \<and> elem_value (elements (snd (fill_form_fields partly_filled_page (Some profile_null_email)
            [(''email'', [''#email'', ''input[name*="email"]''])])) 1) = ''''
   \<and> fst (fill_form_fields partly_filled_page (Some (profile_without_email(''email'' \<mapsto> PInt 0)))
            [(''email'', [''#email'', ''input[name*="email"]''])]) = Inr []
   \<and> fst (fill_form_fields partly_filled_page (Some profile_without_email)
            [(''email'', [''#email'', ''input[name*="email"]''])])
       = Inr [(''email'', PStr ''Nirajan.tech@gmail.com'')]\<close>
  by code_simp

text \<open>
  C9, amended: for a profile without the key \<^verbatim>\<open>email\<close> the filler behaves as for the
  same profile with \<^verbatim>\<open>Nirajan.tech@gmail.com\<close> as its email, and calls
  \<^verbatim>\<open>_try_fill_field\<close> with that address on the selectors of the email field. For a
  profile whose email is present and false for Python (the empty string, \<^verbatim>\<open>None\<close>,
  \<^verbatim>\<open>False\<close>, \<^verbatim>\<open>0\<close>, or another object that is false, such as an empty list) the
  email field is skipped: the page is not touched for it and it is not in the result. A
  value that is true for Python is used as it is; when it was filled in, the line printed
  for it may raise. So a missing key and a false value differ at the fill step.
\<close>

theorem email_default_vs_false_value:
  "(pr ''email'' = None \<longrightarrow>
      fill_form_fields p (Some pr) mappings
        = fill_form_fields p (Some (pr(''email'' \<mapsto> PStr ''Nirajan.tech@gmail.com''))) mappings
      \<and> fill_form_fields p (Some pr) [(''email'', selectors)]
        = (case try_fill_field p selectors (PStr ''Nirajan.tech@gmail.com'') of
             (True, p') \<Rightarrow> (Inr [(''email'', PStr ''Nirajan.tech@gmail.com'')], p')
           | (False, p') \<Rightarrow> (Inr [], p')))
   \<and> (pr ''email'' = Some v \<and> \<not> truthy v \<longrightarrow>
      fill_form_fields p (Some pr) mappings
        = fill_form_fields p (Some pr) (filter (\<lambda>(f, s). f \<noteq> ''email'') mappings)
      \<and> fill_form_fields p (Some pr) [(''email'', selectors)] = (Inr [], p))
   \<and> (pr ''email'' = Some v \<and> truthy v \<longrightarrow>
      fill_form_fields p (Some pr) [(''email'', selectors)]
        = (case try_fill_field p selectors v of
             (True, p') \<Rightarrow>
               (case console_print (filled_text ''email'' v) of
                  Some e \<Rightarrow> (Inl e, p')
                | None \<Rightarrow> (Inr [(''email'', v)], p'))
           | (False, p') \<Rightarrow> (Inr [], p')))
   \<and> (\<not> truthy v) =
       (v = PNone \<or> v = PBool False \<or> v = PInt 0 \<or> v = PStr '''' \<or> (\<exists>s. v = PObj False s))"
proof (intro conjI impI)
  assume none: "pr ''email'' = None"
  have pd: "profile_data (pr(''email'' \<mapsto> PStr ''Nirajan.tech@gmail.com'')) = profile_data pr"
    using none by (simp add: profile_data_def py_get_def)
  show "fill_form_fields p (Some pr) mappings
        = fill_form_fields p (Some (pr(''email'' \<mapsto> PStr ''Nirajan.tech@gmail.com''))) mappings"
    by (simp add: fill_form_fields_def pd)
  have "map_of (profile_data pr) ''email'' = Some (PStr ''Nirajan.tech@gmail.com'')"
    using none by (simp add: profile_data_def py_get_def)
  then show "fill_form_fields p (Some pr) [(''email'', selectors)]
        = (case try_fill_field p selectors (PStr ''Nirajan.tech@gmail.com'') of
             (True, p') \<Rightarrow> (Inr [(''email'', PStr ''Nirajan.tech@gmail.com'')], p')
           | (False, p') \<Rightarrow> (Inr [], p'))"
    by (simp add: fill_form_fields_def email_texts_print split: prod.splits bool.splits)
next
  assume falsy: "pr ''email'' = Some v \<and> \<not> truthy v"
  then have m: "map_of (profile_data pr) ''email'' = Some v"
    by (simp add: profile_data_def py_get_def)
  show "fill_form_fields p (Some pr) mappings
        = fill_form_fields p (Some pr) (filter (\<lambda>(f, s). f \<noteq> ''email'') mappings)"
    using fill_loop_skip_falsy [OF m] falsy by (simp add: fill_form_fields_def)
  show "fill_form_fields p (Some pr) [(''email'', selectors)] = (Inr [], p)"
    using m falsy by (simp add: fill_form_fields_def)
next
  assume some: "pr ''email'' = Some v \<and> truthy v"
  then have "map_of (profile_data pr) ''email'' = Some v"
    by (simp add: profile_data_def py_get_def)
  with some show "fill_form_fields p (Some pr) [(''email'', selectors)]
        = (case try_fill_field p selectors v of
             (True, p') \<Rightarrow>
               (case console_print (filled_text ''email'' v) of
                  Some e \<Rightarrow> (Inl e, p')
                | None \<Rightarrow> (Inr [(''email'', v)], p'))
           | (False, p') \<Rightarrow> (Inr [], p'))"
    by (simp add: fill_form_fields_def email_texts_print
        split: prod.splits bool.splits option.splits)
next
  show "(\<not> truthy v) =
       (v = PNone \<or> v = PBool False \<or> v = PInt 0 \<or> v = PStr '''' \<or> (\<exists>s. v = PObj False s))"
    by (rule falsy_values)
qed

theorem email_default_vs_false_value_witness:
  \<open>profile_without_email ''email'' = None
   \<and> map_prod id (\<lambda>p. elem_value (elements p 1))
        (fill_form_fields partly_filled_page (Some profile_without_email)
           [(''email'', [''#email'', ''input[name*="email"]''])])
       = (Inr [(''email'', PStr ''Nirajan.tech@gmail.com'')], ''Nirajan.tech@gmail.com'')
   \<and> profile_null_email ''email'' = Some PNone
   \<and> \<not> truthy PNone
   \<and> map_prod id (\<lambda>p. elem_value (elements p 1))
        (fill_form_fields partly_filled_page (Some profile_null_email)
           [(''email'', [''#email'', ''input[name*="email"]''])])
       = (Inr [], '''')
   \<and> truthy (PStr ''ada@x.com'')
   \<and> map_prod id (\<lambda>p. elem_value (elements p 1))
        (fill_form_fields partly_filled_page
           (Some (profile_without_email(''email'' \<mapsto> PStr ''ada@x.com'')))
           [(''email'', [''#email'', ''input[name*="email"]''])])
       = (Inr [(''email'', PStr ''ada@x.com'')], ''ada@x.com'')\<close>
proof -
  let ?sels = \<open>[''#email'', ''input[name*="email"]'']\<close>
  let ?ada = "profile_without_email(''email'' \<mapsto> PStr ''ada@x.com'')"
  have a: "profile_without_email ''email'' = None"
    by (simp add: profile_without_email_def)
  have b: "profile_null_email ''email'' = Some PNone"
    by (simp add: profile_null_email_def)
  have b': "?ada ''email'' = Some (PStr ''ada@x.com'')"
    by simp
  have c: "map_prod id (\<lambda>p. elem_value (elements p 1))
        (case try_fill_field partly_filled_page ?sels (PStr ''Nirajan.tech@gmail.com'') of
           (True, p') \<Rightarrow> (Inr [(''email'', PStr ''Nirajan.tech@gmail.com'')], p')
         | (False, p') \<Rightarrow> (Inr [], p'))
       = (Inr [(''email'', PStr ''Nirajan.tech@gmail.com'')] :: exn + (string \<times> pyval) list,
          ''Nirajan.tech@gmail.com'')"
    by code_simp
  have c': "map_prod id (\<lambda>p. elem_value (elements p 1))
        (case try_fill_field partly_filled_page ?sels (PStr ''ada@x.com'') of
           (True, p') \<Rightarrow>
             (case console_print (filled_text ''email'' (PStr ''ada@x.com'')) of
                Some e \<Rightarrow> (Inl e, p')
              | None \<Rightarrow> (Inr [(''email'', PStr ''ada@x.com'')], p'))
         | (False, p') \<Rightarrow> (Inr [], p'))
       = (Inr [(''email'', PStr ''ada@x.com'')], ''ada@x.com'')"
    by code_simp
  have d: "elem_value (elements partly_filled_page 1) = ''''"
    by code_simp
  note T1 = email_default_vs_false_value
    [of profile_without_email partly_filled_page generic_mapping ?sels PNone]
  note T2 = email_default_vs_false_value
    [of profile_null_email partly_filled_page generic_mapping ?sels PNone]
  note T3 = email_default_vs_false_value
    [of ?ada partly_filled_page generic_mapping ?sels "PStr ''ada@x.com''"]
  have t1: "fill_form_fields partly_filled_page (Some profile_without_email) [(''email'', ?sels)]
        = (case try_fill_field partly_filled_page ?sels (PStr ''Nirajan.tech@gmail.com'') of
             (True, p') \<Rightarrow> (Inr [(''email'', PStr ''Nirajan.tech@gmail.com'')], p')
           | (False, p') \<Rightarrow> (Inr [], p'))"
    using T1 a by blast
  have t2: "fill_form_fields partly_filled_page (Some profile_null_email) [(''email'', ?sels)]
        = (Inr [], partly_filled_page)"
    using T2 b by simp
  have t3: "fill_form_fields partly_filled_page (Some ?ada) [(''email'', ?sels)]
        = (case try_fill_field partly_filled_page ?sels (PStr ''ada@x.com'') of
             (True, p') \<Rightarrow>
               (case console_print (filled_text ''email'' (PStr ''ada@x.com'')) of
                  Some e \<Rightarrow> (Inl e, p')
                | None \<Rightarrow> (Inr [(''email'', PStr ''ada@x.com'')], p'))
           | (False, p') \<Rightarrow> (Inr [], p'))"
    using T3 b' by simp
  show ?thesis
    unfolding t1 t2 t3 c c' using a b d by simp
qed

subsection \<open>Strategies and dispatcher\<close>

lemma mapping_item_present:
  "mapping_item ''workday'' = Inr workday_mapping"
  "mapping_item ''greenhouse'' = Inr greenhouse_mapping"
  "mapping_item ''generic'' = Inr generic_mapping"
  by (simp_all add: mapping_item_def form_field_mappings_def)

lemma mapping_get_absent:
  "py_get (map_of form_field_mappings) ''lever'' generic_mapping = generic_mapping"
  "py_get (map_of form_field_mappings) ''bamboohr'' generic_mapping = generic_mapping"
  by (simp_all add: py_get_def form_field_mappings_def)

text \<open>The banners of the strategies are valid markup.\<close>

lemma banners_print:
  "console_print ''[cyan]? Applying Workday strategy[/cyan]'' = None"
  "console_print ''[cyan]? Applying Greenhouse strategy[/cyan]'' = None"
  "console_print ''[cyan]? Applying Lever strategy[/cyan]'' = None"
  "console_print ''[cyan]? Applying BambooHR strategy[/cyan]'' = None"
  "console_print ''[cyan]? Applying generic strategy[/cyan]'' = None"
  "console_print ''[cyan]? Clicking Workday next button[/cyan]'' = None"
  by code_simp+

lemmas body_defs =
  workday_body_def greenhouse_body_def lever_body_def bamboohr_body_def generic_body_def

lemmas strategy_defs =
  apply_workday_strategy_def apply_greenhouse_strategy_def apply_lever_strategy_def
  apply_bamboohr_strategy_def apply_generic_strategy_def

lemma status_strategy_applied [simp]: "status (strategy_applied n f c) = Some ''applied''"
  by (simp add: strategy_applied_def empty_result_def)

lemma status_strategy_failed [simp]: "status (strategy_failed n e c) = Some ''failed''"
  by (simp add: strategy_failed_def empty_result_def)

lemma error_strategy_failed [simp]: "error (strategy_failed n e c) = Some e"
  by (simp add: strategy_failed_def empty_result_def)

lemma body_applied:
  assumes "(n, body) \<in> set strategy_bodies" and "body profile p conf = (Inr r, p')"
  shows "status r = Some ''applied''"
  using assms
  by (auto simp: strategy_bodies_def body_defs mapping_item_present mapping_get_absent Let_def
      split: sum.splits prod.splits)

lemma strategy_of_body:
  assumes "(n, f) \<in> set strategies"
  shows "\<exists>body. (n, body) \<in> set strategy_bodies \<and>
           (\<forall>job profile p conf. f job profile p conf =
              (case body profile p conf of
                 (Inl e, p') \<Rightarrow> Inr (strategy_failed n e conf, p')
               | (Inr r, p') \<Rightarrow> Inr (r, p')))"
proof -
  from assms consider
      "n = ''workday''" "f = apply_workday_strategy"
    | "n = ''greenhouse''" "f = apply_greenhouse_strategy"
    | "n = ''lever''" "f = apply_lever_strategy"
    | "n = ''bamboohr''" "f = apply_bamboohr_strategy"
    | "n = ''generic''" "f = apply_generic_strategy"
    unfolding strategies_def by fastforce
  then show ?thesis
  proof cases
    case 1
    show ?thesis unfolding 1
      by (rule exI [of _ workday_body])
         (simp add: strategy_bodies_def apply_workday_strategy_def banners_print)
  next
    case 2
    show ?thesis unfolding 2
      by (rule exI [of _ greenhouse_body])
         (simp add: strategy_bodies_def apply_greenhouse_strategy_def banners_print)
  next
    case 3
    show ?thesis unfolding 3
      by (rule exI [of _ lever_body])
         (simp add: strategy_bodies_def apply_lever_strategy_def banners_print)
  next
    case 4
    show ?thesis unfolding 4
      by (rule exI [of _ bamboohr_body])
         (simp add: strategy_bodies_def apply_bamboohr_strategy_def banners_print)
  next
    case 5
    show ?thesis unfolding 5
      by (rule exI [of _ generic_body])
         (simp add: strategy_bodies_def apply_generic_strategy_def banners_print)
  qed
qed

lemma strategy_never_raises:
  assumes "(n, f) \<in> set strategies"
  shows "\<exists>r p'. f job profile p conf = Inr (r, p')
           \<and> (status r = Some ''applied'' \<or> status r = Some ''failed'')"
proof -
  from strategy_of_body [OF assms] obtain body where
    b: "(n, body) \<in> set strategy_bodies"
    and f: "f job profile p conf =
              (case body profile p conf of
                 (Inl e, p') \<Rightarrow> Inr (strategy_failed n e conf, p')
               | (Inr r, p') \<Rightarrow> Inr (r, p'))"
    by blast
  obtain res p' where bp: "body profile p conf = (res, p')"
    by (cases "body profile p conf")
  show ?thesis
  proof (cases res)
    case (Inl e)
    with f bp show ?thesis by simp
  next
    case (Inr r)
    with bp body_applied [OF b, of profile p conf r p'] f show ?thesis by simp
  qed
qed

lemma selected_cases:
  obtains
    (workday) "py_get (map_of strategies) ats apply_generic_strategy = apply_workday_strategy"
      "py_get (map_of strategy_bodies) ats generic_body = workday_body"
  | (greenhouse) "py_get (map_of strategies) ats apply_generic_strategy = apply_greenhouse_strategy"
      "py_get (map_of strategy_bodies) ats generic_body = greenhouse_body"
  | (lever) "py_get (map_of strategies) ats apply_generic_strategy = apply_lever_strategy"
      "py_get (map_of strategy_bodies) ats generic_body = lever_body"
  | (bamboohr) "py_get (map_of strategies) ats apply_generic_strategy = apply_bamboohr_strategy"
      "py_get (map_of strategy_bodies) ats generic_body = bamboohr_body"
  | (generic) "py_get (map_of strategies) ats apply_generic_strategy = apply_generic_strategy"
      "py_get (map_of strategy_bodies) ats generic_body = generic_body"
proof -
  consider "ats = ''workday''" | "ats = ''greenhouse''" | "ats = ''lever''" | "ats = ''bamboohr''"
    | "ats \<notin> {''workday'', ''greenhouse'', ''lever'', ''bamboohr''}"
    by blast
  then show ?thesis
  proof cases
    case 1
    show ?thesis
      by (rule workday) (simp_all add: 1 py_get_def strategies_def strategy_bodies_def)
  next
    case 2
    show ?thesis
      by (rule greenhouse) (simp_all add: 2 py_get_def strategies_def strategy_bodies_def)
  next
    case 3
    show ?thesis
      by (rule lever) (simp_all add: 3 py_get_def strategies_def strategy_bodies_def)
  next
    case 4
    show ?thesis
      by (rule bamboohr) (simp_all add: 4 py_get_def strategies_def strategy_bodies_def)
  next
    case 5
    show ?thesis
      by (rule generic) (use 5 in \<open>simp_all add: py_get_def strategies_def strategy_bodies_def\<close>)
  qed
qed

lemma selected_in_table:
  "\<exists>n. (n, py_get (map_of strategies) ats apply_generic_strategy) \<in> set strategies
       \<and> (n, py_get (map_of strategy_bodies) ats generic_body) \<in> set strategy_bodies
       \<and> (\<forall>job profile p conf.
            py_get (map_of strategies) ats apply_generic_strategy job profile p conf =
              (case py_get (map_of strategy_bodies) ats generic_body profile p conf of
                 (Inl e, p') \<Rightarrow> Inr (strategy_failed n e conf, p')
               | (Inr r, p') \<Rightarrow> Inr (r, p')))"
proof (cases rule: selected_cases [of ats])
  case workday
  show ?thesis
    unfolding workday
    by (rule exI [of _ "''workday''"])
       (simp add: strategies_def strategy_bodies_def apply_workday_strategy_def banners_print)
next
  case greenhouse
  show ?thesis
    unfolding greenhouse
    by (rule exI [of _ "''greenhouse''"])
       (simp add: strategies_def strategy_bodies_def apply_greenhouse_strategy_def banners_print)
next
  case lever
  show ?thesis
    unfolding lever
    by (rule exI [of _ "''lever''"])
       (simp add: strategies_def strategy_bodies_def apply_lever_strategy_def banners_print)
next
  case bamboohr
  show ?thesis
    unfolding bamboohr
    by (rule exI [of _ "''bamboohr''"])
       (simp add: strategies_def strategy_bodies_def apply_bamboohr_strategy_def banners_print)
next
  case generic
  show ?thesis
    unfolding generic
    by (rule exI [of _ "''generic''"])
       (simp add: strategies_def strategy_bodies_def apply_generic_strategy_def banners_print)
qed

lemma detect_total: "\<exists>v c. detect_ats_system p job_url = Inr (v, c)"
proof (cases "detect_body p job_url")
  case (Inl e)
  then have "detect_ats_system p job_url = Inr (''generic'', 1 / 10)"
    by (simp add: detect_ats_system_def)
  then show ?thesis by blast
next
  case (Inr r)
  obtain v c where "r = (v, c)" by (cases r)
  with Inr have "detect_ats_system p job_url = Inr (v, c)"
    by (simp add: detect_ats_system_def)
  then show ?thesis by blast
qed

lemma update_manual_unchanged:
  assumes "status r \<noteq> Some ''manual_review''"
  shows "manual_reviews_required (update_application_metrics r m) = manual_reviews_required m"
  using assms
  by (cases "status r")
     (simp_all add: update_application_metrics_def Let_def count_status_def)

text \<open>
  The handler of the dispatcher itself returns its failed result without a metrics update,
  or raises what its print raises.
\<close>

lemma dispatch_handler:
  assumes "strategy_func job profile p conf = Inl e"
  shows "dispatch strategy_func m job profile p ats conf elapsed =
           (case console_print (''[red]? Application optimization failed: '' @ e @ ''[/red]'') of
              Some e' \<Rightarrow> Inl e'
            | None \<Rightarrow>
                Inr (empty_result\<lparr>status := Some ''failed'', error := Some e,
                                   ats_system := Some ats, ats_confidence := Some conf,
                                   application_duration := Some elapsed\<rparr>,
                     m, p))"
  using assms by (simp add: dispatch_def)

lemma dispatch_builtin:
  assumes "(n, f) \<in> set strategies"
  shows "\<exists>r p'. dispatch f m job profile p ats conf elapsed
                  = Inr (r, update_application_metrics r m, p')
           \<and> (status r = Some ''applied'' \<or> status r = Some ''failed'')"
proof -
  from strategy_never_raises [OF assms, of job profile p conf] obtain r0 p' where
    f: "f job profile p conf = Inr (r0, p')"
    and st: "status r0 = Some ''applied'' \<or> status r0 = Some ''failed''"
    by blast
  let ?r = "r0\<lparr>application_duration := Some elapsed, ats_system := Some ats,
                ats_confidence := Some conf\<rparr>"
  have "dispatch f m job profile p ats conf elapsed
          = Inr (?r, update_application_metrics ?r m, p')"
    using f by (simp add: dispatch_def Let_def)
  moreover have "status ?r = Some ''applied'' \<or> status ?r = Some ''failed''"
    using st by simp
  ultimately show ?thesis by blast
qed

lemma flow_raises:
  "optimize_application_flow m None profile p elapsed
     = Inl ''AttributeError: NoneType object has no attribute get''"
  "console_print (announcement (py_get (map_of jb) ''title'' (PStr ''Unknown''))) = Some e
     \<Longrightarrow> optimize_application_flow m (Some jb) profile p elapsed = Inl e"
  by (simp_all add: optimize_application_flow_def)

lemma flow_result:
  assumes "console_print (announcement (py_get (map_of jb) ''title'' (PStr ''Unknown''))) = None"
  shows "\<exists>r p'. optimize_application_flow m (Some jb) profile p elapsed
             = Inr (r, update_application_metrics r m, p')
         \<and> (status r = Some ''applied'' \<or> status r = Some ''failed'')"
proof -
  obtain ats conf where
    d: "detect_ats_system p (url_arg (py_get (map_of jb) ''url'' (PStr ''''))) = Inr (ats, conf)"
    using detect_total by blast
  from selected_in_table [of ats] obtain n where
    n: "(n, py_get (map_of strategies) ats apply_generic_strategy) \<in> set strategies"
    by blast
  from dispatch_builtin [OF n, of m "Some jb" profile p ats conf elapsed] d assms show ?thesis
    by (simp add: optimize_application_flow_def Let_def)
qed

lemma flow_manual:
  "manual_reviews_required
     (case optimize_application_flow m job profile p elapsed of
        Inl e \<Rightarrow> m
      | Inr (r, m', p') \<Rightarrow> m') = manual_reviews_required m"
proof (cases job)
  case None
  then show ?thesis by (simp add: flow_raises)
next
  case (Some jb)
  show ?thesis
  proof (cases "console_print (announcement (py_get (map_of jb) ''title'' (PStr ''Unknown'')))")
    case (Some e)
    with \<open>job = Some jb\<close> show ?thesis by (simp add: flow_raises)
  next
    case None
    from flow_result [OF None, of m profile p elapsed] obtain r p' where
      f: "optimize_application_flow m (Some jb) profile p elapsed
            = Inr (r, update_application_metrics r m, p')"
      and st: "status r = Some ''applied'' \<or> status r = Some ''failed''"
      by blast
    have "manual_reviews_required (update_application_metrics r m) = manual_reviews_required m"
      by (rule update_manual_unchanged) (use st in auto)
    with f \<open>job = Some jb\<close> show ?thesis by simp
  qed
qed

lemma run_flows_manual:
  "manual_reviews_required (run_flows m calls) = manual_reviews_required m"
proof (induction calls arbitrary: m)
  case Nil
  then show ?case by simp
next
  case (Cons c calls)
  obtain job profile p elapsed where c: "c = (job, profile, p, elapsed)" by (cases c)
  let ?m = "case optimize_application_flow m job profile p elapsed of
              Inl e \<Rightarrow> m
            | Inr (r, m', p') \<Rightarrow> m'"
  have "run_flows m (c # calls) = run_flows ?m calls"
    by (simp add: c split: sum.splits prod.splits)
  then show ?case
    using Cons.IH [of ?m] flow_manual [of m job profile p elapsed] by simp
qed

text \<open>
  C4, as stated, fails: the announcement of the job title and the detection come before
  the \<^verbatim>\<open>try\<close>. With \<^verbatim>\<open>None\<close> for the job, \<^verbatim>\<open>job.get\<close> raises
  \<^verbatim>\<open>AttributeError\<close>; with the title \<^verbatim>\<open>Engineer [/remote]\<close>, the print raises
  \<^verbatim>\<open>MarkupError\<close>, as the closing tag has no open tag. In both cases the function raises:
  no failed result is built and the metrics are not updated.
\<close>

theorem dispatcher_raises_counterexample:
  "map_sum id (\<lambda>(r, m, p). (status r, total_attempts m))
       (optimize_application_flow initial_metrics None (Some profile_without_email)
          all_match_page 2)
     = Inl ''AttributeError: NoneType object has no attribute get''
   \<and> map_sum id (\<lambda>(r, m, p). (status r, total_attempts m))
       (optimize_application_flow initial_metrics (Some tagged_title_job)
          (Some profile_without_email) all_match_page 2)
     = Inl (''MarkupError: closing tag '' @ [CHR 0x27] @ ''[/remote]'' @ [CHR 0x27]
            @ '' at position 51 doesn't match any open tag'')"
  by code_simp

text \<open>
  C4, amended: \<open>optimize_application_flow\<close> raises when the job is \<^verbatim>\<open>None\<close> and when
  the announcement of the title cannot be printed. For every other invocation, that is for
  a job dictionary whose announcement is printed, it returns a result and does not raise,
  and the metrics it leaves are those of the metrics update applied to the returned
  result. When an exception is raised inside the selected strategy the returned result has
  status \<^verbatim>\<open>'failed'\<close> and carries the error text; otherwise it has status
  \<^verbatim>\<open>'applied'\<close>. Each strategy converts its own exceptions, so the dispatcher's own
  handler (see \<open>dispatch_handler\<close>) is not entered for the strategies of the table.
\<close>

theorem dispatcher_records_returned_result:
  "optimize_application_flow m None profile p elapsed
     = Inl ''AttributeError: NoneType object has no attribute get''
   \<and> (\<forall>e. console_print (announcement (py_get (map_of jb) ''title'' (PStr ''Unknown''))) = Some e
        \<longrightarrow> optimize_application_flow m (Some jb) profile p elapsed = Inl e)
   \<and> (console_print (announcement (py_get (map_of jb) ''title'' (PStr ''Unknown''))) = None
        \<longrightarrow> (\<exists>r p'. optimize_application_flow m (Some jb) profile p elapsed
                       = Inr (r, update_application_metrics r m, p')
               \<and> (\<forall>e p0. selected_strategy_body jb profile p = (Inl e, p0)
                      \<longrightarrow> status r = Some ''failed'' \<and> error r = Some e \<and> p' = p0)
               \<and> (\<forall>r0 p0. selected_strategy_body jb profile p = (Inr r0, p0)
                      \<longrightarrow> status r = Some ''applied'' \<and> p' = p0)))"
proof (intro conjI allI impI)
  show "optimize_application_flow m None profile p elapsed
     = Inl ''AttributeError: NoneType object has no attribute get''"
    by (rule flow_raises)
next
  fix e
  assume "console_print (announcement (py_get (map_of jb) ''title'' (PStr ''Unknown''))) = Some e"
  then show "optimize_application_flow m (Some jb) profile p elapsed = Inl e"
    by (rule flow_raises)
next
  assume pr: "console_print (announcement (py_get (map_of jb) ''title'' (PStr ''Unknown''))) = None"
  obtain ats conf where
    d: "detect_ats_system p (url_arg (py_get (map_of jb) ''url'' (PStr ''''))) = Inr (ats, conf)"
    using detect_total by blast
  let ?f = "py_get (map_of strategies) ats apply_generic_strategy"
  let ?b = "py_get (map_of strategy_bodies) ats generic_body"
  from selected_in_table [of ats] obtain n where
    nb: "(n, ?b) \<in> set strategy_bodies"
    and eq: "?f (Some jb) profile p conf =
              (case ?b profile p conf of
                 (Inl e, p') \<Rightarrow> Inr (strategy_failed n e conf, p')
               | (Inr r, p') \<Rightarrow> Inr (r, p'))"
    by blast
  have sel: "selected_strategy_body jb profile p = ?b profile p conf"
    using d by (simp add: selected_strategy_body_def)
  have flow: "optimize_application_flow m (Some jb) profile p elapsed
                = dispatch ?f m (Some jb) profile p ats conf elapsed"
    using d pr by (simp add: optimize_application_flow_def Let_def)
  obtain res p1 where bp: "?b profile p conf = (res, p1)"
    by (cases "?b profile p conf")
  show "\<exists>r p'. optimize_application_flow m (Some jb) profile p elapsed
                       = Inr (r, update_application_metrics r m, p')
               \<and> (\<forall>e p0. selected_strategy_body jb profile p = (Inl e, p0)
                      \<longrightarrow> status r = Some ''failed'' \<and> error r = Some e \<and> p' = p0)
               \<and> (\<forall>r0 p0. selected_strategy_body jb profile p = (Inr r0, p0)
                      \<longrightarrow> status r = Some ''applied'' \<and> p' = p0)"
  proof (cases res)
    case (Inl e)
    let ?r = "(strategy_failed n e conf)\<lparr>application_duration := Some elapsed,
                 ats_system := Some ats, ats_confidence := Some conf\<rparr>"
    have "dispatch ?f m (Some jb) profile p ats conf elapsed
            = Inr (?r, update_application_metrics ?r m, p1)"
      using eq bp Inl by (simp add: dispatch_def Let_def)
    with flow have "optimize_application_flow m (Some jb) profile p elapsed
                      = Inr (?r, update_application_metrics ?r m, p1)"
      by simp
    moreover have "status ?r = Some ''failed''" "error ?r = Some e"
      by simp_all
    ultimately show ?thesis
      using sel bp Inl by (intro exI [of _ ?r] exI [of _ p1]) simp
  next
    case (Inr r0)
    let ?r = "r0\<lparr>application_duration := Some elapsed,
                 ats_system := Some ats, ats_confidence := Some conf\<rparr>"
    have "dispatch ?f m (Some jb) profile p ats conf elapsed
            = Inr (?r, update_application_metrics ?r m, p1)"
      using eq bp Inr by (simp add: dispatch_def Let_def)
    with flow have "optimize_application_flow m (Some jb) profile p elapsed
                      = Inr (?r, update_application_metrics ?r m, p1)"
      by simp
    moreover have "status ?r = Some ''applied''"
      using body_applied [OF nb, of profile p conf r0 p1] bp Inr by simp
    ultimately show ?thesis
      using sel bp Inr by (intro exI [of _ ?r] exI [of _ p1]) simp
  qed
qed

theorem dispatcher_records_returned_result_witness:
  "console_print (announcement (py_get (map_of example_job) ''title'' (PStr ''Unknown''))) = None
   \<and> fst (selected_strategy_body example_job None no_dom_page)
       = Inl ''AttributeError: NoneType object has no attribute get''
   \<and> map_sum id (\<lambda>(r, m, p). (status r, error r, total_attempts m, failed_applications m))
       (optimize_application_flow initial_metrics (Some example_job) None no_dom_page 2)
     = Inr (Some ''failed'', Some ''AttributeError: NoneType object has no attribute get'', 1, 1)
   \<and> console_print (announcement (py_get (map_of tagged_title_job) ''title'' (PStr ''Unknown'')))
       = Some (''MarkupError: closing tag '' @ [CHR 0x27] @ ''[/remote]'' @ [CHR 0x27]
               @ '' at position 51 doesn't match any open tag'')
   \<and> map_sum id (\<lambda>(r, m, p). status r)
       (optimize_application_flow initial_metrics (Some tagged_title_job) None no_dom_page 2)
     = Inl (''MarkupError: closing tag '' @ [CHR 0x27] @ ''[/remote]'' @ [CHR 0x27]
            @ '' at position 51 doesn't match any open tag'')"
proof -
  let ?err = "''MarkupError: closing tag '' @ [CHR 0x27] @ ''[/remote]'' @ [CHR 0x27]
            @ '' at position 51 doesn't match any open tag''"
  have pr: "console_print (announcement (py_get (map_of example_job) ''title'' (PStr ''Unknown'')))
              = None"
    by code_simp
  have pt: "console_print (announcement (py_get (map_of tagged_title_job) ''title''
              (PStr ''Unknown''))) = Some ?err"
    by code_simp
  have "fst (selected_strategy_body example_job None no_dom_page)
          = Inl ''AttributeError: NoneType object has no attribute get''"
    by code_simp
  then obtain p0 where a: "selected_strategy_body example_job None no_dom_page
             = (Inl ''AttributeError: NoneType object has no attribute get'', p0)"
    by (cases "selected_strategy_body example_job None no_dom_page") auto
  note T = dispatcher_records_returned_result
    [of initial_metrics None no_dom_page 2 example_job]
  note T' = dispatcher_records_returned_result
    [of initial_metrics None no_dom_page 2 tagged_title_job]
  from T pr a obtain r p' where
    f: "optimize_application_flow initial_metrics (Some example_job) None no_dom_page 2
          = Inr (r, update_application_metrics r initial_metrics, p')"
    and st: "status r = Some ''failed''"
    and er: "error r = Some ''AttributeError: NoneType object has no attribute get''"
    by blast
  have t: "total_attempts (update_application_metrics r initial_metrics) = 1"
    by (simp add: update_total_attempts initial_metrics_def)
  have fa: "failed_applications (update_application_metrics r initial_metrics) = 1"
    using st by (simp add: update_buckets initial_metrics_def)
  have g: "optimize_application_flow initial_metrics (Some tagged_title_job) None no_dom_page 2
          = Inl ?err"
    using T' pt by blast
  show ?thesis
    using pr pt a f st er t fa g by simp
qed

text \<open>
  C10: for every job, profile and page, each strategy of the table returns the result of
  its body, with status \<^verbatim>\<open>'applied'\<close>, whenever the body completes without raising
  (also when no field was filled, as in the witness), and otherwise a result with status
  \<^verbatim>\<open>'failed'\<close>; no strategy produces \<^verbatim>\<open>'manual_review'\<close>. Hence every sequence
  of calls of \<open>optimize_application_flow\<close>, whether they return or raise, leaves
  \<open>manual_reviews_required\<close> unchanged, and at 0 from the initial metrics.
\<close>

theorem strategies_never_manual_review:
  "(\<forall>n f. (n, f) \<in> set strategies \<longrightarrow>
      (\<exists>body. (n, body) \<in> set strategy_bodies
         \<and> (\<forall>r p'. body profile p conf = (Inr r, p')
               \<longrightarrow> f job profile p conf = Inr (r, p') \<and> status r = Some ''applied''))
      \<and> (\<exists>r p'. f job profile p conf = Inr (r, p')
               \<and> (status r = Some ''applied'' \<or> status r = Some ''failed'')))
   \<and> manual_reviews_required (run_flows m calls) = manual_reviews_required m
   \<and> manual_reviews_required (run_flows initial_metrics calls) = 0"
proof (intro conjI allI impI)
  fix n f
  assume nf: "(n, f) \<in> set strategies"
  from strategy_of_body [OF nf] obtain body where
    b: "(n, body) \<in> set strategy_bodies"
    and eq: "\<And>job profile p conf. f job profile p conf =
              (case body profile p conf of
                 (Inl e, p') \<Rightarrow> Inr (strategy_failed n e conf, p')
               | (Inr r, p') \<Rightarrow> Inr (r, p'))"
    by blast
  have "\<forall>r p'. body profile p conf = (Inr r, p')
               \<longrightarrow> f job profile p conf = Inr (r, p') \<and> status r = Some ''applied''"
    using eq [of job profile p conf] body_applied [OF b, of profile p conf] by simp
  with b show "\<exists>body. (n, body) \<in> set strategy_bodies
         \<and> (\<forall>r p'. body profile p conf = (Inr r, p')
               \<longrightarrow> f job profile p conf = Inr (r, p') \<and> status r = Some ''applied'')"
    by blast
  show "\<exists>r p'. f job profile p conf = Inr (r, p')
               \<and> (status r = Some ''applied'' \<or> status r = Some ''failed'')"
    by (rule strategy_never_raises [OF nf])
next
  show "manual_reviews_required (run_flows m calls) = manual_reviews_required m"
    by (rule run_flows_manual)
next
  from run_flows_manual [of initial_metrics calls]
  show "manual_reviews_required (run_flows initial_metrics calls) = 0"
    by (simp add: initial_metrics_def)
qed

theorem strategies_never_manual_review_witness:
  "map_prod (map_sum id (\<lambda>r. (status r, fields_filled r))) (\<lambda>p. ())
       (generic_body (Some profile_without_email) no_dom_page (3 / 10))
     = (Inr (Some ''applied'', Some []), ())
   \<and> map_sum id (\<lambda>(r, p). (status r, fields_filled r))
       (apply_generic_strategy (Some example_job) (Some profile_without_email) no_dom_page (3 / 10))
     = Inr (Some ''applied'', Some [])
   \<and> manual_reviews_required
       (run_flows initial_metrics
          [(Some example_job, Some profile_without_email, no_dom_page, 2),
           (Some example_job, None, all_match_page, 3),
           (None, None, all_match_page, 3)])
     = 0"
proof -
  let ?calls = "[(Some example_job, Some profile_without_email, no_dom_page, 2),
                 (Some example_job, None, all_match_page, 3),
                 (None, None, all_match_page, 3)]"
  note T = strategies_never_manual_review
    [of "Some profile_without_email" no_dom_page "3 / 10" "Some example_job" initial_metrics ?calls]
  have mem: "(''generic'', apply_generic_strategy) \<in> set strategies"
    by (simp add: strategies_def)
  have a: "map_prod (map_sum id (\<lambda>r. (status r, fields_filled r))) (\<lambda>p. ())
       (generic_body (Some profile_without_email) no_dom_page (3 / 10))
     = (Inr (Some ''applied'', Some []), ())"
    by code_simp
  then obtain r p' where
    b: "generic_body (Some profile_without_email) no_dom_page (3 / 10) = (Inr r, p')"
    and r: "status r = Some ''applied''" "fields_filled r = Some []"
    by (cases "generic_body (Some profile_without_email) no_dom_page (3 / 10)";
        cases "fst (generic_body (Some profile_without_email) no_dom_page (3 / 10))") auto
  from T mem obtain body where
    bm: "(''generic'', body) \<in> set strategy_bodies"
    and bb: "\<forall>r p'. body (Some profile_without_email) no_dom_page (3 / 10) = (Inr r, p')
               \<longrightarrow> apply_generic_strategy (Some example_job) (Some profile_without_email)
                     no_dom_page (3 / 10) = Inr (r, p') \<and> status r = Some ''applied''"
    by blast
  have "body = generic_body"
    using bm by (simp add: strategy_bodies_def)
  with bb b have s: "apply_generic_strategy (Some example_job) (Some profile_without_email)
                     no_dom_page (3 / 10) = Inr (r, p')"
    by blast
  from T have m: "manual_reviews_required (run_flows initial_metrics ?calls) = 0"
    by blast
  show ?thesis
    using a s r m by simp
qed

subsection \<open>Batch runner\<close>




text \<open>
  C3, evaluated where the code departs from it: one job with a URL, and document
  generation fails in the first pass (or no submitter can be acquired). The retry loop
  leaves by \<^verbatim>\<open>break\<close> without touching a counter, so the statistics have
  \<open>total = 1\<close> and every bucket 0. The same happens when a pass that ends in a timeout
  is followed by a pass that raises: the handler and the loop each add one to
  \<^verbatim>\<open>retry_count\<close>, which passes the budget without a failure being counted. The
  other ways out of the loop body do count the job: three passes that end in a timeout
  count one failure, and a job without a URL counts as skipped.
\<close>

theorem batch_drops_job_without_documents:
  "apply_to_jobs True docs_fail [job_y]
     = Inr \<lparr>applied = 0, failed = 0, manual = 0, total = 1, retried = 0, skipped = 0\<rparr>
   \<and> apply_to_jobs True no_submitter [job_y]
     = Inr \<lparr>applied = 0, failed = 0, manual = 0, total = 1, retried = 0, skipped = 0\<rparr>
   \<and> apply_to_jobs True timeout_then_raise [job_y]
     = Inr \<lparr>applied = 0, failed = 0, manual = 0, total = 1, retried = 1, skipped = 0\<rparr>
   \<and> map_sum id (\<lambda>st. (total st, terminal_sum st)) (apply_to_jobs True docs_fail [job_y])
     = Inr (1, 0)
   \<and> apply_to_jobs True always_timeout [job_y]
     = Inr \<lparr>applied = 0, failed = 1, manual = 0, total = 1, retried = 2, skipped = 0\<rparr>
   \<and> apply_to_jobs True docs_fail two_jobs
     = Inr \<lparr>applied = 0, failed = 0, manual = 0, total = 2, retried = 0, skipped = 1\<rparr>"
  by code_simp




end
